theory Spec2Isabelle
  imports Main "HOL-Library.Sublist"
begin

section \<open>Domain entities (internal/domain/entity.go)\<close>

text \<open>
  \<^verbatim>\<open>DatabaseType\<close> and \<^verbatim>\<open>BackupMethod\<close> are Go string types: any string is a value of
  the type, and the named constants are the recognised ones.
\<close>

type_synonym DatabaseType = string
type_synonym BackupMethod = string

definition DatabaseTypePostgres :: DatabaseType where
  "DatabaseTypePostgres = ''postgres''"

definition DatabaseTypeMySQL :: DatabaseType where
  "DatabaseTypeMySQL = ''mysql''"

definition DatabaseTypeMariaDB :: DatabaseType where
  "DatabaseTypeMariaDB = ''mariadb''"

definition DatabaseTypeMongoDB :: DatabaseType where
  "DatabaseTypeMongoDB = ''mongodb''"

definition BackupMethodDockerRun :: BackupMethod where
  "BackupMethodDockerRun = ''docker-run''"

definition BackupMethodDockerExec :: BackupMethod where
  "BackupMethodDockerExec = ''docker-exec''"

definition BackupMethodKubectlExec :: BackupMethod where
  "BackupMethodKubectlExec = ''kubectl-exec''"

definition DatabaseType_IsValid :: "DatabaseType \<Rightarrow> bool" where
  "DatabaseType_IsValid dt =
     (dt = DatabaseTypePostgres \<or> dt = DatabaseTypeMySQL \<or>
      dt = DatabaseTypeMariaDB \<or> dt = DatabaseTypeMongoDB)"

definition BackupMethod_IsValid :: "BackupMethod \<Rightarrow> bool" where
  "BackupMethod_IsValid bm =
     (bm = BackupMethodDockerRun \<or> bm = BackupMethodDockerExec \<or>
      bm = BackupMethodKubectlExec)"

text \<open>
  A Go \<^verbatim>\<open>error\<close> value: an error handed back by the operating system or by a child
  process, a fresh \<^verbatim>\<open>fmt.Errorf\<close> message, or \<^verbatim>\<open>fmt.Errorf("...: %w", err)\<close> wrapping
  another error. \<^verbatim>\<open>nil\<close> is \<open>None\<close> of \<open>error option\<close>.
\<close>

datatype error =
    ExternalError string
  | Errorf string
  | ErrorfW string error

fun error_message :: "error \<Rightarrow> string" where
  "error_message (ExternalError m) = m"
| "error_message (Errorf m) = m"
| "error_message (ErrorfW p e) = p @ '': '' @ error_message e"

text \<open>The innermost error of a chain of \<^verbatim>\<open>%w\<close> wrappings.\<close>

fun error_root :: "error \<Rightarrow> error" where
  "error_root (ErrorfW p e) = error_root e"
| "error_root e = e"

text \<open>
  \<^verbatim>\<open>time.Time\<close> as the calendar fields \<^verbatim>\<open>Format\<close> reads from it (what \<^verbatim>\<open>t.Date()\<close> and
  \<^verbatim>\<open>t.Clock()\<close> return).
\<close>

record Time =
  year :: int
  month :: nat
  day :: nat
  hour :: nat
  minute :: nat
  second :: nat

record BackupResult =
  DatabaseType :: DatabaseType
  Database :: string
  Success :: bool
  BackupPath :: string
  Size :: string
  Error :: "error option"
  Duration :: int

record DatabaseConfig =
  Type :: DatabaseType
  Host :: string
  Port :: int
  User :: string
  Password :: string
  Database :: string
  Version :: string
  Container :: string
  Pod :: string

record BackupConfig =
  Method :: BackupMethod
  Timestamp :: Time
  BackupDir :: string
  TempDir :: string
  K8sNamespace :: string
  Databases :: "DatabaseConfig list"

section \<open>The outside world\<close>

text \<open>
  Every call that leaves the process is recorded, in order, in the world: reading the
  clock, printing through the output service, creating directories, writing files,
  asking for the working directory, and running an external command to completion
  (\<^verbatim>\<open>cmd.Run()\<close> and \<^verbatim>\<open>cmd.Output()\<close>; the list is the command's argv).
\<close>

datatype call =
    Now
  | PrintBackupStart DatabaseType DatabaseConfig BackupMethod
  | PrintBackupResult BackupResult
  | MkdirAll string nat
  | Getwd
  | WriteFile string string nat
  | Exec "string list"

type_synonym world = "call list"

text \<open>
  What the outside answers is not decided by the program. An environment gives, for
  the calls made so far and the call made now, the answer: a command's standard output
  and error, an error or \<^verbatim>\<open>nil\<close> for a file-system operation, the working directory,
  and the reading of the monotonic clock (nanoseconds).
\<close>

record env =
  exec_result :: "world \<Rightarrow> string list \<Rightarrow> string \<times> error option"
  mkdirall_result :: "world \<Rightarrow> string \<Rightarrow> nat \<Rightarrow> error option"
  writefile_result :: "world \<Rightarrow> string \<Rightarrow> string \<Rightarrow> nat \<Rightarrow> error option"
  getwd_result :: "world \<Rightarrow> string \<times> error option"
  monotonic_clock :: "world \<Rightarrow> int"

text \<open>\<^verbatim>\<open>cmd.Output()\<close>: run the command, return its standard output and its error.\<close>

definition cmd_Output :: "env \<Rightarrow> string list \<Rightarrow> world \<Rightarrow> (string \<times> error option) \<times> world" where
  "cmd_Output env argv w = (exec_result env w argv, w @ [Exec argv])"

text \<open>\<^verbatim>\<open>cmd.Run()\<close>: run the command, return its error only.\<close>

definition cmd_Run :: "env \<Rightarrow> string list \<Rightarrow> world \<Rightarrow> error option \<times> world" where
  "cmd_Run env argv w = (snd (exec_result env w argv), w @ [Exec argv])"

definition os_MkdirAll :: "env \<Rightarrow> string \<Rightarrow> nat \<Rightarrow> world \<Rightarrow> error option \<times> world" where
  "os_MkdirAll env path perm w = (mkdirall_result env w path perm, w @ [MkdirAll path perm])"

definition os_WriteFile :: "env \<Rightarrow> string \<Rightarrow> string \<Rightarrow> nat \<Rightarrow> world \<Rightarrow> error option \<times> world" where
  "os_WriteFile env path data perm w =
     (writefile_result env w path data perm, w @ [WriteFile path data perm])"

definition os_Getwd :: "env \<Rightarrow> world \<Rightarrow> (string \<times> error option) \<times> world" where
  "os_Getwd env w = (getwd_result env w, w @ [Getwd])"

text \<open>
  \<^verbatim>\<open>time.Now()\<close>, kept as its monotonic reading, which is all \<^verbatim>\<open>time.Since\<close> uses of it.
\<close>

definition time_Now :: "env \<Rightarrow> world \<Rightarrow> int \<times> world" where
  "time_Now env w = (monotonic_clock env w, w @ [Now])"

text \<open>
  \<^verbatim>\<open>Time.Sub\<close> on two monotonic readings: the difference, saturated at the largest and
  smallest \<^verbatim>\<open>Duration\<close> (an int64 of nanoseconds).
\<close>

definition subMono :: "int \<Rightarrow> int \<Rightarrow> int" where
  "subMono t u =
     (let d = t - u in
      if d > 2 ^ 63 - 1 then 2 ^ 63 - 1
      else if d < - (2 ^ 63) then - (2 ^ 63)
      else d)"

definition time_Since :: "env \<Rightarrow> int \<Rightarrow> world \<Rightarrow> int \<times> world" where
  "time_Since env t w = (let (now, w1) = time_Now env w in (subMono now t, w1))"

definition octal_0755 :: nat where
  "octal_0755 = 493"

definition octal_0644 :: nat where
  "octal_0644 = 420"

section \<open>The backup repository (infrastructure layer)\<close>

text \<open>
  The three file-producing backups end every branch the same way: the command's
  standard output is captured; a failed command is reported with the branch's message
  wrapped around its error; otherwise the output is written to the destination file
  and the result of \<^verbatim>\<open>os.WriteFile\<close> is returned.
\<close>

definition output_to_file ::
  "env \<Rightarrow> string list \<Rightarrow> string \<Rightarrow> string \<Rightarrow> world \<Rightarrow> error option \<times> world" where
  "output_to_file env cmd failed backupPath w =
     (let ((output, err), w1) = cmd_Output env cmd w in
      case err of
        Some e \<Rightarrow> (Some (ErrorfW failed e), w1)
      | None \<Rightarrow> os_WriteFile env backupPath output octal_0644 w1)"

definition BackupPostgres ::
  "env \<Rightarrow> DatabaseConfig \<Rightarrow> BackupMethod \<Rightarrow> string \<Rightarrow> string \<Rightarrow> world \<Rightarrow> error option \<times> world" where
  "BackupPostgres env config method backupPath namespace w =
     (let ((cwd, _), w1) = os_Getwd env w in
      if method = BackupMethodDockerRun then
        output_to_file env
          [''docker'', ''run'', ''--rm'',
           ''-e'', ''PGPASSWORD='' @ Password config,
           ''-v'', cwd @ ''/backup/postgres:/backup'',
           ''postgres:'' @ Version config,
           ''pg_dump'', ''-h'', Host config, ''-U'', User config, Database config]
          ''docker run failed'' backupPath w1
      else if method = BackupMethodDockerExec then
        output_to_file env
          [''docker'', ''exec'', Container config, ''sh'', ''-c'',
           ''PGPASSWORD='' @ [CHR 0x27] @ Password config @ [CHR 0x27] @
           '' pg_dump -h localhost -U '' @ User config @ '' '' @ Database config]
          ''docker exec failed'' backupPath w1
      else if method = BackupMethodKubectlExec then
        output_to_file env
          [''kubectl'', ''exec'', ''-n'', namespace, Pod config, ''--'', ''sh'', ''-c'',
           ''PGPASSWORD='' @ [CHR 0x27] @ Password config @ [CHR 0x27] @
           '' pg_dump -h localhost -U '' @ User config @ '' '' @ Database config]
          ''kubectl exec failed'' backupPath w1
      else (Some (Errorf (''unknown backup method: '' @ method)), w1))"

definition BackupMySQL ::
  "env \<Rightarrow> DatabaseConfig \<Rightarrow> BackupMethod \<Rightarrow> string \<Rightarrow> string \<Rightarrow> world \<Rightarrow> error option \<times> world" where
  "BackupMySQL env config method backupPath namespace w =
     (let ((cwd, _), w1) = os_Getwd env w in
      if method = BackupMethodDockerRun then
        output_to_file env
          [''docker'', ''run'', ''--rm'',
           ''-v'', cwd @ ''/backup/mysql:/backup'',
           ''mysql:'' @ Version config, ''sh'', ''-c'',
           ''mysqldump -h'' @ Host config @ '' -u'' @ User config @
           '' -p'' @ Password config @ '' '' @ Database config]
          ''docker run failed'' backupPath w1
      else if method = BackupMethodDockerExec then
        output_to_file env
          [''docker'', ''exec'', Container config, ''sh'', ''-c'',
           ''mysqldump -h localhost -u'' @ User config @
           '' -p'' @ Password config @ '' '' @ Database config]
          ''docker exec failed'' backupPath w1
      else if method = BackupMethodKubectlExec then
        output_to_file env
          [''kubectl'', ''exec'', ''-n'', namespace, Pod config, ''--'', ''sh'', ''-c'',
           ''mysqldump -h localhost -u'' @ User config @
           '' -p'' @ Password config @ '' '' @ Database config]
          ''kubectl exec failed'' backupPath w1
      else (Some (Errorf (''unknown backup method: '' @ method)), w1))"

definition BackupMariaDB ::
  "env \<Rightarrow> DatabaseConfig \<Rightarrow> BackupMethod \<Rightarrow> string \<Rightarrow> string \<Rightarrow> world \<Rightarrow> error option \<times> world" where
  "BackupMariaDB env config method backupPath namespace w =
     (let ((cwd, _), w1) = os_Getwd env w in
      if method = BackupMethodDockerRun then
        output_to_file env
          [''docker'', ''run'', ''--rm'',
           ''-v'', cwd @ ''/backup/mariadb:/backup'',
           ''mariadb:'' @ Version config, ''sh'', ''-c'',
           ''mysqldump -h'' @ Host config @ '' -u'' @ User config @
           '' -p'' @ Password config @ '' '' @ Database config]
          ''docker run failed'' backupPath w1
      else if method = BackupMethodDockerExec then
        output_to_file env
          [''docker'', ''exec'', Container config, ''sh'', ''-c'',
           ''mysqldump -h localhost -u'' @ User config @
           '' -p'' @ Password config @ '' '' @ Database config]
          ''docker exec failed'' backupPath w1
      else if method = BackupMethodKubectlExec then
        output_to_file env
          [''kubectl'', ''exec'', ''-n'', namespace, Pod config, ''--'', ''sh'', ''-c'',
           ''mysqldump -h localhost -u'' @ User config @
           '' -p'' @ Password config @ '' '' @ Database config]
          ''kubectl exec failed'' backupPath w1
      else (Some (Errorf (''unknown backup method: '' @ method)), w1))"

text \<open>
  \<^verbatim>\<open>filepath.Base\<close> (Unix): the last element of the path, trailing slashes removed
  first; \<^verbatim>\<open>"."\<close> for the empty path and \<^verbatim>\<open>"/"\<close> for a path of slashes only.
\<close>

definition filepath_Base :: "string \<Rightarrow> string" where
  "filepath_Base path =
     (if path = [] then ''.''
      else
        (let stripped = rev (dropWhile (\<lambda>c. c = CHR ''/'') (rev path));
             last_elem = rev (takeWhile (\<lambda>c. c \<noteq> CHR ''/'') (rev stripped))
         in if last_elem = [] then ''/'' else last_elem))"

text \<open>The commands of the three phases of a MongoDB backup through an exec transport.\<close>

definition docker_exec_mongodump :: "DatabaseConfig \<Rightarrow> string \<Rightarrow> string \<Rightarrow> string list" where
  "docker_exec_mongodump config tempDir timestamp =
     [''docker'', ''exec'', Container config,
      ''mongodump'', ''--host'', ''localhost'', ''--db'', Database config,
      ''--out'', tempDir @ ''/'' @ timestamp]"

definition docker_cp :: "DatabaseConfig \<Rightarrow> string \<Rightarrow> string \<Rightarrow> string \<Rightarrow> string list" where
  "docker_cp config tempDir timestamp backupPath =
     [''docker'', ''cp'',
      Container config @ '':'' @ tempDir @ ''/'' @ timestamp @ ''/'' @ Database config,
      backupPath @ ''/'']"

definition docker_exec_rm :: "DatabaseConfig \<Rightarrow> string \<Rightarrow> string \<Rightarrow> string list" where
  "docker_exec_rm config tempDir timestamp =
     [''docker'', ''exec'', Container config, ''rm'', ''-rf'', tempDir @ ''/'' @ timestamp]"

definition kubectl_exec_mongodump ::
  "DatabaseConfig \<Rightarrow> string \<Rightarrow> string \<Rightarrow> string \<Rightarrow> string list" where
  "kubectl_exec_mongodump config namespace tempDir timestamp =
     [''kubectl'', ''exec'', ''-n'', namespace, Pod config, ''--'',
      ''mongodump'', ''--host'', ''localhost'', ''--db'', Database config,
      ''--out'', tempDir @ ''/'' @ timestamp]"

definition kubectl_cp ::
  "DatabaseConfig \<Rightarrow> string \<Rightarrow> string \<Rightarrow> string \<Rightarrow> string \<Rightarrow> string list" where
  "kubectl_cp config namespace tempDir timestamp backupPath =
     [''kubectl'', ''cp'',
      namespace @ ''/'' @ Pod config @ '':'' @ tempDir @ ''/'' @ timestamp @ ''/'' @ Database config,
      backupPath @ ''/'']"

definition kubectl_exec_rm ::
  "DatabaseConfig \<Rightarrow> string \<Rightarrow> string \<Rightarrow> string \<Rightarrow> string list" where
  "kubectl_exec_rm config namespace tempDir timestamp =
     [''kubectl'', ''exec'', ''-n'', namespace, Pod config, ''--'',
      ''rm'', ''-rf'', tempDir @ ''/'' @ timestamp]"

text \<open>
  The exec branches of \<^verbatim>\<open>BackupMongoDB\<close> are the same code with the docker and the
  kubectl commands: create the dump remotely, create the local directory (its result
  is dropped), copy the dump out, remove the remote copy (its result is dropped).
\<close>

definition mongo_three_phase ::
  "env \<Rightarrow> string list \<Rightarrow> string \<Rightarrow> string \<Rightarrow> string list \<Rightarrow> string \<Rightarrow> string list \<Rightarrow>
   world \<Rightarrow> error option \<times> world" where
  "mongo_three_phase env create create_failed backupPath copy copy_failed cleanup w1 =
     (let (err, w2) = cmd_Run env create w1 in
      case err of
        Some e \<Rightarrow> (Some (ErrorfW create_failed e), w2)
      | None \<Rightarrow>
          (let (_, w3) = os_MkdirAll env backupPath octal_0755 w2;
               (err, w4) = cmd_Run env copy w3 in
           case err of
             Some e \<Rightarrow> (Some (ErrorfW copy_failed e), w4)
           | None \<Rightarrow>
               (let (_, w5) = cmd_Run env cleanup w4 in (None, w5))))"

definition BackupMongoDB ::
  "env \<Rightarrow> DatabaseConfig \<Rightarrow> BackupMethod \<Rightarrow> string \<Rightarrow> string \<Rightarrow> string \<Rightarrow> world \<Rightarrow>
   error option \<times> world" where
  "BackupMongoDB env config method backupPath namespace tempDir w =
     (let ((cwd, _), w1) = os_Getwd env w in
      if method = BackupMethodDockerRun then
        cmd_Run env
          [''docker'', ''run'', ''--rm'',
           ''-v'', cwd @ ''/backup/mongodb:/backup'',
           ''mongo:'' @ Version config,
           ''mongodump'', ''--host'', Host config, ''--db'', Database config,
           ''--out'', ''/backup/'' @ filepath_Base backupPath] w1
      else if method = BackupMethodDockerExec then
        (let timestamp = filepath_Base backupPath in
         mongo_three_phase env
           (docker_exec_mongodump config tempDir timestamp)
           ''failed to create backup in container''
           backupPath
           (docker_cp config tempDir timestamp backupPath)
           ''failed to copy backup from container''
           (docker_exec_rm config tempDir timestamp) w1)
      else if method = BackupMethodKubectlExec then
        (let timestamp = filepath_Base backupPath in
         mongo_three_phase env
           (kubectl_exec_mongodump config namespace tempDir timestamp)
           ''failed to create backup in pod''
           backupPath
           (kubectl_cp config namespace tempDir timestamp backupPath)
           ''failed to copy backup from pod''
           (kubectl_exec_rm config namespace tempDir timestamp) w1)
      else (Some (Errorf (''unknown backup method: '' @ method)), w1))"

subsection \<open>The size inspector\<close>

text \<open>
  \<^verbatim>\<open>strings.Fields\<close> splits a string around runs of white space, as
  \<^verbatim>\<open>unicode.IsSpace\<close> defines it, on the runes the string decodes to. A Go string is a
  sequence of bytes; \<^verbatim>\<open>utf8.DecodeRuneInString\<close> reads the rune at its head and says
  how many bytes it takes, an invalid encoding being the rune \<^verbatim>\<open>U+FFFD\<close> of width 1.
\<close>

definition RuneError :: nat where
  "RuneError = 0xFFFD"

definition DecodeRuneInString :: "string \<Rightarrow> nat \<times> nat" where
  "DecodeRuneInString s =
     (case map of_char s of
        [] \<Rightarrow> (RuneError, 0)
      | s0 # rest \<Rightarrow>
          if s0 < (0x80 :: nat) then (s0, 1)
          else if s0 < 0xC2 \<or> 0xF4 < s0 then (RuneError, 1)
          else
            (let sz = (if s0 < 0xE0 then 2 else if s0 < 0xF0 then 3 else 4 :: nat);
                 lo = (if s0 = 0xE0 then 0xA0 else if s0 = 0xF0 then 0x90 else 0x80);
                 hi = (if s0 = 0xED then 0x9F else if s0 = 0xF4 then 0x8F else 0xBF)
             in
             if length s < sz then (RuneError, 1)
             else
               (let s1 = rest ! 0 in
                if s1 < lo \<or> hi < s1 then (RuneError, 1)
                else if sz \<le> 2 then ((s0 mod 32) * 64 + s1 mod 64, 2)
                else
                  (let s2 = rest ! 1 in
                   if s2 < 0x80 \<or> 0xBF < s2 then (RuneError, 1)
                   else if sz \<le> 3 then
                     ((s0 mod 16) * 4096 + (s1 mod 64) * 64 + s2 mod 64, 3)
                   else
                     (let s3 = rest ! 2 in
                      if s3 < 0x80 \<or> 0xBF < s3 then (RuneError, 1)
                      else
                        ((s0 mod 8) * 262144 + (s1 mod 64) * 4096 +
                         (s2 mod 64) * 64 + s3 mod 64, 4))))))"

text \<open>
  The runes of a string in order, each with the bytes it was decoded from: what
  \<^verbatim>\<open>for _, r := range s\<close> walks through.
\<close>

function runes :: "string \<Rightarrow> (nat \<times> string) list" where
  "runes s =
     (if s = [] then []
      else (fst (DecodeRuneInString s), take (snd (DecodeRuneInString s)) s)
             # runes (drop (snd (DecodeRuneInString s)) s))"
  by pat_completeness auto
termination
  by (relation "measure length")
     (auto simp: DecodeRuneInString_def Let_def split: list.splits)

declare runes.simps [simp del]

definition unicode_IsSpace :: "nat \<Rightarrow> bool" where
  "unicode_IsSpace r =
     (if r \<le> 0xFF then
        r = 0x09 \<or> r = 0x0A \<or> r = 0x0B \<or> r = 0x0C \<or> r = 0x0D \<or> r = 0x20 \<or>
        r = 0x85 \<or> r = 0xA0
      else
        r = 0x1680 \<or> (0x2000 \<le> r \<and> r \<le> 0x200A) \<or> r = 0x2028 \<or> r = 0x2029 \<or>
        r = 0x202F \<or> r = 0x205F \<or> r = 0x3000)"

text \<open>
  The loop of \<^verbatim>\<open>strings.FieldsFunc\<close>: the field being read, if one is open, is closed
  by the next rune that satisfies \<open>f\<close>, and the last field may end with the string.
\<close>

fun FieldsFunc_loop :: "(nat \<Rightarrow> bool) \<Rightarrow> (nat \<times> string) list \<Rightarrow> string option \<Rightarrow> string list" where
  "FieldsFunc_loop f [] cur = (case cur of None \<Rightarrow> [] | Some field \<Rightarrow> [field])"
| "FieldsFunc_loop f ((r, bytes) # rest) cur =
     (if f r then
        (case cur of
           None \<Rightarrow> FieldsFunc_loop f rest None
         | Some field \<Rightarrow> field # FieldsFunc_loop f rest None)
      else
        (case cur of
           None \<Rightarrow> FieldsFunc_loop f rest (Some bytes)
         | Some field \<Rightarrow> FieldsFunc_loop f rest (Some (field @ bytes))))"

definition strings_Fields :: "string \<Rightarrow> string list" where
  "strings_Fields s = FieldsFunc_loop unicode_IsSpace (runes s) None"

definition GetFileSize ::
  "env \<Rightarrow> string \<Rightarrow> bool \<Rightarrow> world \<Rightarrow> (string \<times> error option) \<times> world" where
  "GetFileSize env path isDirectory w =
     (let cmd = (if isDirectory then [''du'', ''-sh'', path] else [''du'', ''-h'', path]);
          ((output, err), w1) = cmd_Output env cmd w
      in
      case err of
        Some e \<Rightarrow> (('''', Some (ErrorfW ''failed to get file size'' e)), w1)
      | None \<Rightarrow>
          (let fields = strings_Fields output in
           if length fields > 0 then ((fields ! 0, None), w1)
           else ((''unknown'', None), w1)))"

section \<open>Library functions the use case calls\<close>

subsection \<open>\<^verbatim>\<open>filepath.Join\<close> and \<^verbatim>\<open>filepath.Clean\<close> (Unix)\<close>

text \<open>
  \<^verbatim>\<open>Clean\<close> writes the shortest path equivalent to its argument by lexical processing:
  it reads the path from the left and keeps an output buffer. An empty element and a
  \<^verbatim>\<open>.\<close> element are dropped; a \<^verbatim>\<open>..\<close> element removes the last element written, back
  to the previous separator, unless nothing removable is left (\<open>dotdot\<close> is the length
  of the output that must stay), in which case it is kept for a relative path and
  dropped for a rooted one; any other element is copied, after a separator if needed.
\<close>

fun backtrack :: "string \<Rightarrow> nat \<Rightarrow> nat \<Rightarrow> nat" where
  "backtrack buf dotdot w =
     (if w > dotdot \<and> buf ! w \<noteq> CHR ''/'' then backtrack buf dotdot (w - 1) else w)"

declare backtrack.simps [simp del]

function Clean_loop :: "bool \<Rightarrow> string \<Rightarrow> string \<Rightarrow> nat \<Rightarrow> string" where
  "Clean_loop rooted [] out dotdot = out"
| "Clean_loop rooted (c # cs) out dotdot =
     (if c = CHR ''/'' then Clean_loop rooted cs out dotdot
      else if c = CHR ''.'' \<and> (cs = [] \<or> hd cs = CHR ''/'') then
        Clean_loop rooted cs out dotdot
      else if c = CHR ''.'' \<and> cs \<noteq> [] \<and> hd cs = CHR ''.'' \<and>
              (tl cs = [] \<or> hd (tl cs) = CHR ''/'') then
        (if length out > dotdot then
           Clean_loop rooted (tl cs)
             (take (backtrack out dotdot (length out - 1)) out) dotdot
         else if \<not> rooted then
           Clean_loop rooted (tl cs)
             ((if length out > 0 then out @ ''/'' else out) @ ''..'')
             (length ((if length out > 0 then out @ ''/'' else out) @ ''..''))
         else Clean_loop rooted (tl cs) out dotdot)
      else
        Clean_loop rooted (dropWhile (\<lambda>x. x \<noteq> CHR ''/'') cs)
          ((if (rooted \<and> length out \<noteq> 1) \<or> (\<not> rooted \<and> length out \<noteq> 0)
            then out @ ''/'' else out)
           @ c # takeWhile (\<lambda>x. x \<noteq> CHR ''/'') cs)
          dotdot)"
  by pat_completeness auto
termination
  by (relation "measure (\<lambda>(rooted, path, out, dotdot). length path)")
     (auto simp: less_Suc_eq_le length_dropWhile_le)

declare Clean_loop.simps [simp del]

definition filepath_Clean :: "string \<Rightarrow> string" where
  "filepath_Clean path =
     (if path = [] then ''.''
      else
        (let out = (if hd path = CHR ''/'' then Clean_loop True (tl path) ''/'' 1
                    else Clean_loop False path [] 0)
         in if out = [] then ''.'' else out))"

text \<open>\<^verbatim>\<open>strings.Join(elems, sep)\<close>.\<close>

fun strings_Join :: "string list \<Rightarrow> string \<Rightarrow> string" where
  "strings_Join [] sep = []"
| "strings_Join [e] sep = e"
| "strings_Join (e # es) sep = e @ sep @ strings_Join es sep"

text \<open>
  \<^verbatim>\<open>filepath.Join\<close>: leading empty elements are skipped, the rest is joined with the
  separator and cleaned; with no non-empty element the result is the empty string.
\<close>

fun filepath_Join :: "string list \<Rightarrow> string" where
  "filepath_Join [] = []"
| "filepath_Join (e # es) =
     (if e \<noteq> [] then filepath_Clean (strings_Join (e # es) ''/'')
      else filepath_Join es)"

subsection \<open>\<^verbatim>\<open>Time.Format\<close> with the layout \<^verbatim>\<open>2006-01-02_15-04-05\<close>\<close>

fun digits :: "nat \<Rightarrow> string" where
  "digits n =
     (if n < 10 then [''0123456789'' ! n]
      else digits (n div 10) @ [''0123456789'' ! (n mod 10)])"

declare digits.simps [simp del]

text \<open>
  \<^verbatim>\<open>appendInt\<close> of package time: the decimal digits of \<open>x\<close>, padded with zeros on the
  left to \<open>width\<close>, after a minus sign when \<open>x\<close> is negative.
\<close>

definition appendInt :: "int \<Rightarrow> nat \<Rightarrow> string" where
  "appendInt x width =
     (if x < 0 then ''-'' else []) @
     replicate (width - length (digits (nat \<bar>x\<bar>))) (CHR ''0'') @ digits (nat \<bar>x\<bar>)"

definition Format_timestamp :: "Time \<Rightarrow> string" where
  "Format_timestamp t =
     appendInt (year t) 4 @ ''-'' @ appendInt (int (month t)) 2 @ ''-'' @
     appendInt (int (day t)) 2 @ ''_'' @ appendInt (int (hour t)) 2 @ ''-'' @
     appendInt (int (minute t)) 2 @ ''-'' @ appendInt (int (second t)) 2"

section \<open>The backup use case (internal/usecase/backup\_usecase.go)\<close>

text \<open>
  The switch on the database type in \<^verbatim>\<open>backupDatabase\<close>: it sets \<^verbatim>\<open>backupPath\<close> and
  \<^verbatim>\<open>err\<close>, both declared just before it with their zero values, which is what they
  keep when no case matches (the switch has no default).
\<close>

definition backup_switch ::
  "env \<Rightarrow> DatabaseConfig \<Rightarrow> BackupMethod \<Rightarrow> string \<Rightarrow> string \<Rightarrow> string \<Rightarrow> string \<Rightarrow>
   world \<Rightarrow> (string \<times> error option) \<times> world" where
  "backup_switch env dbConfig method timestamp namespace tempDir backupDir w =
     (if Type dbConfig = DatabaseTypePostgres then
        (let backupPath = filepath_Join [backupDir, Database dbConfig @ ''_'' @ timestamp @ ''.sql''];
             (err, w1) = BackupPostgres env dbConfig method backupPath namespace w
         in ((backupPath, err), w1))
      else if Type dbConfig = DatabaseTypeMySQL then
        (let backupPath = filepath_Join [backupDir, Database dbConfig @ ''_'' @ timestamp @ ''.sql''];
             (err, w1) = BackupMySQL env dbConfig method backupPath namespace w
         in ((backupPath, err), w1))
      else if Type dbConfig = DatabaseTypeMariaDB then
        (let backupPath = filepath_Join [backupDir, Database dbConfig @ ''_'' @ timestamp @ ''.sql''];
             (err, w1) = BackupMariaDB env dbConfig method backupPath namespace w
         in ((backupPath, err), w1))
      else if Type dbConfig = DatabaseTypeMongoDB then
        (let backupPath = filepath_Join [backupDir, timestamp];
             (err, w1) = BackupMongoDB env dbConfig method backupPath namespace tempDir w
         in ((backupPath, err), w1))
      else (([], None), w))"

definition backupDatabase ::
  "env \<Rightarrow> DatabaseConfig \<Rightarrow> BackupMethod \<Rightarrow> string \<Rightarrow> string \<Rightarrow> string \<Rightarrow> world \<Rightarrow>
   BackupResult \<times> world" where
  "backupDatabase env dbConfig method timestamp namespace tempDir w =
     (let (startTime, w1) = time_Now env w;
          result = \<lparr>DatabaseType = Type dbConfig, BackupResult.Database = Database dbConfig,
                    Success = False, BackupPath = [], Size = [], Error = None,
                    Duration = 0\<rparr>;
          w2 = w1 @ [PrintBackupStart (Type dbConfig) dbConfig method];
          backupDir = filepath_Join [''backup'', Type dbConfig];
          (mkdir_err, w3) = os_MkdirAll env backupDir octal_0755 w2
      in
      case mkdir_err of
        Some e \<Rightarrow>
          (let (d, w4) = time_Since env startTime w3 in
           (result\<lparr>Error := Some (ErrorfW ''failed to create backup directory'' e),
                   Duration := d\<rparr>, w4))
      | None \<Rightarrow>
          (let ((backupPath, err), w4) =
                 backup_switch env dbConfig method timestamp namespace tempDir backupDir w3;
               (d, w5) = time_Since env startTime w4;
               result = result\<lparr>Duration := d, BackupPath := backupPath\<rparr>
           in
           case err of
             Some e \<Rightarrow> (result\<lparr>Error := Some e\<rparr>, w5)
           | None \<Rightarrow>
               (let isDirectory = (Type dbConfig = DatabaseTypeMongoDB);
                    ((size, size_err), w6) = GetFileSize env backupPath isDirectory w5
                in
                case size_err of
                  Some e \<Rightarrow>
                    (result\<lparr>Error :=
                       Some (ErrorfW ''backup created but failed to get size'' e)\<rparr>, w6)
                | None \<Rightarrow> (result\<lparr>Size := size, Success := True\<rparr>, w6))))"

text \<open>
  The loop of \<^verbatim>\<open>executeBackups\<close> over \<^verbatim>\<open>config.Databases\<close>: each result is appended to
  the results so far and printed.
\<close>

fun executeBackups_loop ::
  "env \<Rightarrow> BackupMethod \<Rightarrow> string \<Rightarrow> string \<Rightarrow> string \<Rightarrow> DatabaseConfig list \<Rightarrow>
   BackupResult list \<Rightarrow> world \<Rightarrow> BackupResult list \<times> world" where
  "executeBackups_loop env method timestamp namespace tempDir [] results w = (results, w)"
| "executeBackups_loop env method timestamp namespace tempDir (dbConfig # rest) results w =
     (let (result, w1) = backupDatabase env dbConfig method timestamp namespace tempDir w
      in executeBackups_loop env method timestamp namespace tempDir rest
           (results @ [result]) (w1 @ [PrintBackupResult result]))"

definition executeBackups :: "env \<Rightarrow> BackupConfig \<Rightarrow> world \<Rightarrow> BackupResult list \<times> world" where
  "executeBackups env config w =
     (let timestamp = Format_timestamp (Timestamp config) in
      executeBackups_loop env (Method config) timestamp (K8sNamespace config)
        (TempDir config) (Databases config) [] w)"

section \<open>Environments and jobs to run the model on\<close>

text \<open>
  An environment in which the commands selected by \<open>exec_fails\<close> exit with status 1
  and every other command prints a line of \<^verbatim>\<open>du\<close>, in which creating the directories
  selected by \<open>mkdir_fails\<close> is refused, and whose clock advances by one with every call.
\<close>

definition test_env :: "(string list \<Rightarrow> bool) \<Rightarrow> (string \<Rightarrow> bool) \<Rightarrow> env" where
  "test_env exec_fails mkdir_fails =
     \<lparr>exec_result = (\<lambda>w argv.
        if exec_fails argv then ([], Some (ExternalError ''exit status 1''))
        else (''4.0K'' @ [CHR 0x09] @ ''backup'' @ [CHR 0x0A], None)),
      mkdirall_result = (\<lambda>w path perm.
        if mkdir_fails path then Some (ExternalError ''permission denied'') else None),
      writefile_result = (\<lambda>w path data perm. None),
      getwd_result = (\<lambda>w. (''/home/user'', None)),
      monotonic_clock = (\<lambda>w. int (length w))\<rparr>"

definition test_db :: "DatabaseType \<Rightarrow> string \<Rightarrow> DatabaseConfig" where
  "test_db ty name =
     \<lparr>Type = ty, Host = ''db'', Port = 0, User = ''root'', Password = ''secret'',
      Database = name, Version = ''15'', Container = ''c1'', Pod = ''pod-0''\<rparr>"

definition test_time :: Time where
  "test_time = \<lparr>year = 2025, month = 11, day = 26, hour = 10, minute = 22, second = 1\<rparr>"

section \<open>Vocabulary of the properties\<close>

text \<open>The external commands run in a stretch of the world, oldest first.\<close>

fun execs :: "world \<Rightarrow> string list list" where
  "execs [] = []"
| "execs (Exec argv # w) = argv # execs w"
| "execs (c # w) = execs w"

text \<open>
  The monotonic clock never runs backwards: a reading taken after more calls is not
  smaller than one taken after fewer.
\<close>

definition clock_monotonic :: "env \<Rightarrow> bool" where
  "clock_monotonic env =
     (\<forall>w w'. prefix w w' \<longrightarrow> monotonic_clock env w \<le> monotonic_clock env w')"

text \<open>
  The stages of one job that starts in world \<open>w\<close>: the world in which
  \<^verbatim>\<open>os.MkdirAll\<close> is asked for the backup directory of the database type, and the
  world after it, in which the switch on the database type starts.
\<close>

definition job_backupDir :: "DatabaseConfig \<Rightarrow> string" where
  "job_backupDir dbConfig = filepath_Join [''backup'', Type dbConfig]"

definition at_mkdir :: "world \<Rightarrow> DatabaseConfig \<Rightarrow> BackupMethod \<Rightarrow> world" where
  "at_mkdir w dbConfig method = w @ [Now, PrintBackupStart (Type dbConfig) dbConfig method]"

definition directory_ready :: "world \<Rightarrow> DatabaseConfig \<Rightarrow> BackupMethod \<Rightarrow> world" where
  "directory_ready w dbConfig method =
     at_mkdir w dbConfig method @ [MkdirAll (job_backupDir dbConfig) octal_0755]"

text \<open>
  The two exec transports, and for a MongoDB job through one of them the command of
  each phase: (a) the remote dump, (b) the copy to the local destination, (c) the
  remote cleanup; with the messages \<^verbatim>\<open>BackupMongoDB\<close> wraps around a failure of (a)
  and of (b).
\<close>

definition exec_transport :: "BackupMethod \<Rightarrow> bool" where
  "exec_transport method =
     (method = BackupMethodDockerExec \<or> method = BackupMethodKubectlExec)"

definition remote_create ::
  "BackupMethod \<Rightarrow> DatabaseConfig \<Rightarrow> string \<Rightarrow> string \<Rightarrow> string \<Rightarrow> string list" where
  "remote_create method config namespace tempDir backupPath =
     (if method = BackupMethodDockerExec
      then docker_exec_mongodump config tempDir (filepath_Base backupPath)
      else kubectl_exec_mongodump config namespace tempDir (filepath_Base backupPath))"

definition copy_out ::
  "BackupMethod \<Rightarrow> DatabaseConfig \<Rightarrow> string \<Rightarrow> string \<Rightarrow> string \<Rightarrow> string list" where
  "copy_out method config namespace tempDir backupPath =
     (if method = BackupMethodDockerExec
      then docker_cp config tempDir (filepath_Base backupPath) backupPath
      else kubectl_cp config namespace tempDir (filepath_Base backupPath) backupPath)"

definition remote_cleanup ::
  "BackupMethod \<Rightarrow> DatabaseConfig \<Rightarrow> string \<Rightarrow> string \<Rightarrow> string \<Rightarrow> string list" where
  "remote_cleanup method config namespace tempDir backupPath =
     (if method = BackupMethodDockerExec
      then docker_exec_rm config tempDir (filepath_Base backupPath)
      else kubectl_exec_rm config namespace tempDir (filepath_Base backupPath))"

definition create_failed_message :: "BackupMethod \<Rightarrow> string" where
  "create_failed_message method =
     (if method = BackupMethodDockerExec then ''failed to create backup in container''
      else ''failed to create backup in pod'')"

definition copy_failed_message :: "BackupMethod \<Rightarrow> string" where
  "copy_failed_message method =
     (if method = BackupMethodDockerExec then ''failed to copy backup from container''
      else ''failed to copy backup from pod'')"

text \<open>
  The first white-space-delimited token of a string, said directly: skip the runes
  that are white space, then take the runes up to the next white space or the end of
  the string; there is none when nothing is left after skipping.
\<close>

definition first_token :: "string \<Rightarrow> string option" where
  "first_token s =
     (let rest = dropWhile (\<lambda>(r, bytes). unicode_IsSpace r) (runes s) in
      if rest = [] then None
      else Some (concat (map snd (takeWhile (\<lambda>(r, bytes). \<not> unicode_IsSpace r) rest))))"

text \<open>An environment in which every command succeeds and prints only blanks.\<close>

definition blank_env :: env where
  "blank_env =
     (test_env (\<lambda>a. False) (\<lambda>p. False))
       \<lparr>exec_result := (\<lambda>w argv. (''  '' @ [CHR 0x0A], None))\<rparr>"

text \<open>
  A path element that \<^verbatim>\<open>Clean\<close> copies as it is: not empty, without a separator in
  it, and neither \<^verbatim>\<open>.\<close> nor \<^verbatim>\<open>..\<close>.
\<close>

definition plain_element :: "string \<Rightarrow> bool" where
  "plain_element e = (e \<noteq> [] \<and> CHR ''/'' \<notin> set e \<and> e \<noteq> ''.'' \<and> e \<noteq> ''..'')"

text \<open>
  A time whose calendar fields are in range, with a year of at most four digits, and
  the shape \<^verbatim>\<open>YYYY-MM-DD_HH-MM-SS\<close> of a string (\<^verbatim>\<open>d\<close> stands for a decimal digit).
\<close>

definition calendar_time :: "Time \<Rightarrow> bool" where
  "calendar_time t =
     (0 \<le> year t \<and> year t \<le> 9999 \<and> 1 \<le> month t \<and> month t \<le> 12 \<and>
      1 \<le> day t \<and> day t \<le> 31 \<and> hour t < 24 \<and> minute t < 60 \<and> second t < 60)"

definition timestamp_shape :: "string \<Rightarrow> bool" where
  "timestamp_shape s =
     list_all2 (\<lambda>p c. if p = CHR ''d'' then c \<in> set ''0123456789'' else c = p)
       ''dddd-dd-dd_dd-dd-dd'' s"

section \<open>How a job unfolds\<close>

lemma execs_append: "execs (w @ w') = execs w @ execs w'"
  by (induction w rule: execs.induct) simp_all

lemma subMono_nonneg: "u \<le> t \<Longrightarrow> 0 \<le> subMono t u"
  by (simp add: subMono_def Let_def)

lemma clock_monotonic_test_env: "clock_monotonic (test_env exec_fails mkdir_fails)"
  by (simp add: clock_monotonic_def test_env_def prefix_length_le)

text \<open>
  The four ways \<^verbatim>\<open>backupDatabase\<close> returns, each with the result it builds and the
  world it leaves: the backup directory could not be created; the backup call
  failed; the backup call succeeded and the size could not be measured; both
  succeeded.
\<close>

lemma backupDatabase_mkdir_failed:
  assumes "mkdirall_result env (at_mkdir w dbConfig method) (job_backupDir dbConfig) octal_0755 = Some e"
  shows "backupDatabase env dbConfig method timestamp namespace tempDir w =
     (\<lparr>DatabaseType = Type dbConfig, BackupResult.Database = Database dbConfig,
       Success = False, BackupPath = [], Size = [],
       Error = Some (ErrorfW ''failed to create backup directory'' e),
       Duration = subMono (monotonic_clock env (directory_ready w dbConfig method))
                    (monotonic_clock env w)\<rparr>,
      directory_ready w dbConfig method @ [Now])"
  using assms
  by (simp add: backupDatabase_def Let_def time_Now_def time_Since_def os_MkdirAll_def
      at_mkdir_def directory_ready_def job_backupDir_def)

lemma backupDatabase_backup_failed:
  assumes "mkdirall_result env (at_mkdir w dbConfig method) (job_backupDir dbConfig) octal_0755 = None"
    and "backup_switch env dbConfig method timestamp namespace tempDir (job_backupDir dbConfig)
           (directory_ready w dbConfig method) = ((backupPath, Some e), w4)"
  shows "backupDatabase env dbConfig method timestamp namespace tempDir w =
     (\<lparr>DatabaseType = Type dbConfig, BackupResult.Database = Database dbConfig,
       Success = False, BackupPath = backupPath, Size = [],
       Error = Some e,
       Duration = subMono (monotonic_clock env w4) (monotonic_clock env w)\<rparr>,
      w4 @ [Now])"
  using assms
  by (simp add: backupDatabase_def Let_def time_Now_def time_Since_def os_MkdirAll_def
      at_mkdir_def directory_ready_def job_backupDir_def)

lemma backupDatabase_size_failed:
  assumes "mkdirall_result env (at_mkdir w dbConfig method) (job_backupDir dbConfig) octal_0755 = None"
    and "backup_switch env dbConfig method timestamp namespace tempDir (job_backupDir dbConfig)
           (directory_ready w dbConfig method) = ((backupPath, None), w4)"
    and "GetFileSize env backupPath (Type dbConfig = DatabaseTypeMongoDB) (w4 @ [Now]) =
           ((sz, Some e), w6)"
  shows "backupDatabase env dbConfig method timestamp namespace tempDir w =
     (\<lparr>DatabaseType = Type dbConfig, BackupResult.Database = Database dbConfig,
       Success = False, BackupPath = backupPath, Size = [],
       Error = Some (ErrorfW ''backup created but failed to get size'' e),
       Duration = subMono (monotonic_clock env w4) (monotonic_clock env w)\<rparr>,
      w6)"
  using assms
  by (simp add: backupDatabase_def Let_def time_Now_def time_Since_def os_MkdirAll_def
      at_mkdir_def directory_ready_def job_backupDir_def)

lemma backupDatabase_succeeded:
  assumes "mkdirall_result env (at_mkdir w dbConfig method) (job_backupDir dbConfig) octal_0755 = None"
    and "backup_switch env dbConfig method timestamp namespace tempDir (job_backupDir dbConfig)
           (directory_ready w dbConfig method) = ((backupPath, None), w4)"
    and "GetFileSize env backupPath (Type dbConfig = DatabaseTypeMongoDB) (w4 @ [Now]) =
           ((sz, None), w6)"
  shows "backupDatabase env dbConfig method timestamp namespace tempDir w =
     (\<lparr>DatabaseType = Type dbConfig, BackupResult.Database = Database dbConfig,
       Success = True, BackupPath = backupPath, Size = sz,
       Error = None,
       Duration = subMono (monotonic_clock env w4) (monotonic_clock env w)\<rparr>,
      w6)"
  using assms
  by (simp add: backupDatabase_def Let_def time_Now_def time_Since_def os_MkdirAll_def
      at_mkdir_def directory_ready_def job_backupDir_def)

text \<open>
  No call is ever taken back: every operation leaves a world that extends the one it
  started in.
\<close>

lemma output_to_file_prefix:
  "prefix w (snd (output_to_file env cmd failed backupPath w))"
  by (simp add: output_to_file_def cmd_Output_def os_WriteFile_def split_beta
      split: option.splits)

lemma GetFileSize_world:
  "snd (GetFileSize env path isDirectory w) =
     w @ [Exec [''du'', if isDirectory then ''-sh'' else ''-h'', path]]"
  by (simp add: GetFileSize_def cmd_Output_def Let_def split_beta split: option.splits)

lemma after_Getwd_prefix: "prefix (w @ [Getwd]) w' \<Longrightarrow> prefix w w'"
  by (rule append_prefixD)

lemma BackupPostgres_prefix:
  "prefix w (snd (BackupPostgres env config method backupPath namespace w))"
proof -
  have "\<And>cmd failed. prefix w (snd (output_to_file env cmd failed backupPath (w @ [Getwd])))"
    by (rule after_Getwd_prefix) (rule output_to_file_prefix)
  then show ?thesis
    by (simp add: BackupPostgres_def os_Getwd_def split_beta)
qed

lemma BackupMySQL_prefix:
  "prefix w (snd (BackupMySQL env config method backupPath namespace w))"
proof -
  have "\<And>cmd failed. prefix w (snd (output_to_file env cmd failed backupPath (w @ [Getwd])))"
    by (rule after_Getwd_prefix) (rule output_to_file_prefix)
  then show ?thesis
    by (simp add: BackupMySQL_def os_Getwd_def split_beta)
qed

lemma BackupMariaDB_prefix:
  "prefix w (snd (BackupMariaDB env config method backupPath namespace w))"
proof -
  have "\<And>cmd failed. prefix w (snd (output_to_file env cmd failed backupPath (w @ [Getwd])))"
    by (rule after_Getwd_prefix) (rule output_to_file_prefix)
  then show ?thesis
    by (simp add: BackupMariaDB_def os_Getwd_def split_beta)
qed

lemma mongo_three_phase_prefix:
  "prefix w (snd (mongo_three_phase env create create_failed backupPath copy copy_failed cleanup w))"
  by (simp add: mongo_three_phase_def cmd_Run_def os_MkdirAll_def split_beta
      split: option.splits)

lemma BackupMongoDB_prefix:
  "prefix w (snd (BackupMongoDB env config method backupPath namespace tempDir w))"
proof -
  have "\<And>create create_failed copy copy_failed cleanup.
     prefix w (snd (mongo_three_phase env create create_failed backupPath copy copy_failed
       cleanup (w @ [Getwd])))"
    by (rule after_Getwd_prefix) (rule mongo_three_phase_prefix)
  then show ?thesis
    by (simp add: BackupMongoDB_def os_Getwd_def cmd_Run_def split_beta Let_def)
qed

lemma backup_switch_prefix:
  "prefix w (snd (backup_switch env dbConfig method timestamp namespace tempDir backupDir w))"
  by (simp add: backup_switch_def Let_def split_beta BackupPostgres_prefix BackupMySQL_prefix
      BackupMariaDB_prefix BackupMongoDB_prefix)

lemma backup_switch_unknown_type:
  assumes "\<not> DatabaseType_IsValid (Type dbConfig)"
  shows "backup_switch env dbConfig method timestamp namespace tempDir backupDir w = (([], None), w)"
  using assms by (simp add: backup_switch_def DatabaseType_IsValid_def)

lemma GetFileSize_failed:
  assumes "exec_result env w [''du'', if isDirectory then ''-sh'' else ''-h'', path] = (out, Some e)"
  shows "GetFileSize env path isDirectory w =
     (([], Some (ErrorfW ''failed to get file size'' e)),
      w @ [Exec [''du'', if isDirectory then ''-sh'' else ''-h'', path]])"
  using assms by (cases isDirectory) (simp_all add: GetFileSize_def cmd_Output_def)

section \<open>Properties of the batch\<close>

lemma backupDatabase_DatabaseType:
  "DatabaseType (fst (backupDatabase env dbConfig method timestamp namespace tempDir w)) =
   Type dbConfig"
  by (simp add: backupDatabase_def Let_def split_beta split: option.splits)

lemma backupDatabase_Database:
  "BackupResult.Database (fst (backupDatabase env dbConfig method timestamp namespace tempDir w)) =
   Database dbConfig"
  by (simp add: backupDatabase_def Let_def split_beta split: option.splits)

text \<open>
  The loop only ever appends to the results it was given, one result for each
  database still to do, each the outcome of \<^verbatim>\<open>backupDatabase\<close> on that database.
\<close>

lemma executeBackups_loop_results:
  "\<exists>rs. fst (executeBackups_loop env method timestamp namespace tempDir dbs results w) =
          results @ rs \<and>
     list_all2
       (\<lambda>r db. \<exists>w'. r = fst (backupDatabase env db method timestamp namespace tempDir w'))
       rs dbs"
proof (induction dbs arbitrary: results w)
  case Nil
  show ?case by simp
next
  case (Cons db rest)
  let ?P = "\<lambda>r db. \<exists>w'. r = fst (backupDatabase env db method timestamp namespace tempDir w')"
  obtain r w1 where step: "backupDatabase env db method timestamp namespace tempDir w = (r, w1)"
    by (cases "backupDatabase env db method timestamp namespace tempDir w")
  from Cons.IH [of "results @ [r]" "w1 @ [PrintBackupResult r]"]
  obtain rs where
    rs: "fst (executeBackups_loop env method timestamp namespace tempDir rest (results @ [r])
           (w1 @ [PrintBackupResult r])) = (results @ [r]) @ rs"
    and all: "list_all2 ?P rs rest"
    by blast
  have "r = fst (backupDatabase env db method timestamp namespace tempDir w)"
    using step by simp
  then have "list_all2 ?P (r # rs) (db # rest)"
    using all by blast
  moreover have
    "fst (executeBackups_loop env method timestamp namespace tempDir (db # rest) results w) =
     results @ (r # rs)"
    using step rs by simp
  ultimately show ?case by blast
qed

lemma results_follow_configs:
  assumes "list_all2
     (\<lambda>r db. \<exists>w'. r = fst (backupDatabase env db method timestamp namespace tempDir w'))
     rs dbs"
  shows "map DatabaseType rs = map Type dbs"
    and "map BackupResult.Database rs = map Database dbs"
  using assms
  by (induction rs dbs rule: list_all2_induct)
     (auto simp: backupDatabase_DatabaseType backupDatabase_Database)

text \<open>
  Claim C1. Whatever the environment answers, \<^verbatim>\<open>executeBackups\<close> returns one result for
  every configured database, in the order of the configuration: the list has the
  length of \<^verbatim>\<open>config.Databases\<close>, its database types and names are those of the
  configuration read from left to right, and the result at each position is the
  outcome of \<^verbatim>\<open>backupDatabase\<close> on the database at that position, be it a success or
  a failure. No failure of a job ends the batch.
\<close>

theorem executeBackups_complete_in_order:
  "length (fst (executeBackups env config w)) = length (Databases config) \<and>
   map DatabaseType (fst (executeBackups env config w)) = map Type (Databases config) \<and>
   map BackupResult.Database (fst (executeBackups env config w)) =
     map Database (Databases config) \<and>
   list_all2
     (\<lambda>r db. \<exists>w'. r = fst (backupDatabase env db (Method config)
        (Format_timestamp (Timestamp config)) (K8sNamespace config) (TempDir config) w'))
     (fst (executeBackups env config w)) (Databases config)"
proof -
  let ?P = "\<lambda>r db. \<exists>w'. r = fst (backupDatabase env db (Method config)
        (Format_timestamp (Timestamp config)) (K8sNamespace config) (TempDir config) w')"
  obtain rs where rs: "fst (executeBackups env config w) = rs"
    and all: "list_all2 ?P rs (Databases config)"
    using executeBackups_loop_results [of env "Method config"
        "Format_timestamp (Timestamp config)" "K8sNamespace config" "TempDir config"
        "Databases config" "[]" w]
    by (auto simp: executeBackups_def Let_def)
  have len: "length rs = length (Databases config)"
    using all by (rule list_all2_lengthD)
  have ty: "map DatabaseType rs = map Type (Databases config)"
    using all by (rule results_follow_configs(1))
  have nm: "map BackupResult.Database rs = map Database (Databases config)"
    using all by (rule results_follow_configs(2))
  show ?thesis using rs all len ty nm by simp
qed

text \<open>
  A batch of three jobs in which the second has the unknown type \<^verbatim>\<open>oracle\<close> and its
  size query fails: the first and the third job still succeed.
\<close>

lemma batch_goes_on_after_a_failure:
  "map Success (fst (executeBackups (test_env (\<lambda>a. hd a = ''du'' \<and> a ! 2 = []) (\<lambda>p. False))
     \<lparr>Method = BackupMethodDockerExec, Timestamp = test_time, BackupDir = ''backup'',
      TempDir = ''/tmp/db-backups'', K8sNamespace = ''default'',
      Databases = [test_db DatabaseTypePostgres ''a'', test_db ''oracle'' ''b'',
                   test_db DatabaseTypeMongoDB ''c'']\<rparr> [])) =
   [True, False, True]"
  by code_simp

section \<open>Properties of one job\<close>

text \<open>
  Claim C6. The result of \<^verbatim>\<open>backupDatabase\<close> carries a failure detail exactly when its
  success flag is false: \<^verbatim>\<open>Error\<close> is non-nil on every failed outcome and nil on
  every successful one, for every job and every environment.
\<close>

theorem failure_detail_iff_not_success:
  "(Error (fst (backupDatabase env dbConfig method timestamp namespace tempDir w)) \<noteq> None) =
   (\<not> Success (fst (backupDatabase env dbConfig method timestamp namespace tempDir w)))"
  by (simp add: backupDatabase_def Let_def split_beta split: option.splits)

text \<open>
  Claim C5. Take any job, of any database type and through any method, whose backup
  directory is there, whose backup call returns no error and whose size measurement
  returns a size and no error. Its result has the success flag set, no failure detail,
  the path the backup was written to, the size string the inspector returned, and,
  the monotonic clock never running backwards, a duration that is not negative.
\<close>

theorem successful_job_outcome:
  assumes "clock_monotonic env"
    and "mkdirall_result env (at_mkdir w dbConfig method) (job_backupDir dbConfig) octal_0755 = None"
    and "backup_switch env dbConfig method timestamp namespace tempDir (job_backupDir dbConfig)
           (directory_ready w dbConfig method) = ((backupPath, None), w4)"
    and "GetFileSize env backupPath (Type dbConfig = DatabaseTypeMongoDB) (w4 @ [Now]) =
           ((sz, None), w6)"
  shows "Success (fst (backupDatabase env dbConfig method timestamp namespace tempDir w)) \<and>
         Size (fst (backupDatabase env dbConfig method timestamp namespace tempDir w)) = sz \<and>
         Error (fst (backupDatabase env dbConfig method timestamp namespace tempDir w)) = None \<and>
         BackupPath (fst (backupDatabase env dbConfig method timestamp namespace tempDir w)) = backupPath \<and>
         0 \<le> Duration (fst (backupDatabase env dbConfig method timestamp namespace tempDir w))"
proof -
  have "prefix (directory_ready w dbConfig method) w4"
    using backup_switch_prefix [of "directory_ready w dbConfig method" env dbConfig "method"
        timestamp namespace tempDir "job_backupDir dbConfig"] assms(3)
    by simp
  then have "prefix w w4"
    by (auto simp: directory_ready_def at_mkdir_def dest: append_prefixD)
  then have "monotonic_clock env w \<le> monotonic_clock env w4"
    using assms(1) by (simp add: clock_monotonic_def)
  then have "0 \<le> subMono (monotonic_clock env w4) (monotonic_clock env w)"
    by (rule subMono_nonneg)
  then show ?thesis
    by (simp add: backupDatabase_succeeded [OF assms(2) assms(3) assms(4)])
qed

theorem successful_job_outcome_witness:
  "Success (fst (backupDatabase (test_env (\<lambda>a. False) (\<lambda>p. False))
       (test_db DatabaseTypePostgres ''mydb'') BackupMethodDockerExec ''ts'' ''default''
       ''/tmp/db-backups'' [])) \<and>
   Size (fst (backupDatabase (test_env (\<lambda>a. False) (\<lambda>p. False))
       (test_db DatabaseTypePostgres ''mydb'') BackupMethodDockerExec ''ts'' ''default''
       ''/tmp/db-backups'' [])) = ''4.0K'' \<and>
   Error (fst (backupDatabase (test_env (\<lambda>a. False) (\<lambda>p. False))
       (test_db DatabaseTypePostgres ''mydb'') BackupMethodDockerExec ''ts'' ''default''
       ''/tmp/db-backups'' [])) = None \<and>
   BackupPath (fst (backupDatabase (test_env (\<lambda>a. False) (\<lambda>p. False))
       (test_db DatabaseTypePostgres ''mydb'') BackupMethodDockerExec ''ts'' ''default''
       ''/tmp/db-backups'' [])) = ''backup/postgres/mydb_ts.sql'' \<and>
   0 \<le> Duration (fst (backupDatabase (test_env (\<lambda>a. False) (\<lambda>p. False))
       (test_db DatabaseTypePostgres ''mydb'') BackupMethodDockerExec ''ts'' ''default''
       ''/tmp/db-backups'' []))"
proof -
  let ?env = "test_env (\<lambda>a. False) (\<lambda>p. False)"
  let ?db = "test_db DatabaseTypePostgres ''mydb''"
  let ?w4 = "directory_ready [] ?db BackupMethodDockerExec @
     [Getwd,
      Exec [''docker'', ''exec'', ''c1'', ''sh'', ''-c'',
            ''PGPASSWORD='' @ [CHR 0x27] @ ''secret'' @ [CHR 0x27] @
            '' pg_dump -h localhost -U root mydb''],
      WriteFile ''backup/postgres/mydb_ts.sql''
        (''4.0K'' @ [CHR 0x09] @ ''backup'' @ [CHR 0x0A]) octal_0644]"
  have h1: "clock_monotonic ?env"
    by (rule clock_monotonic_test_env)
  have h2: "mkdirall_result ?env (at_mkdir [] ?db BackupMethodDockerExec) (job_backupDir ?db)
      octal_0755 = None"
    by (simp add: test_env_def)
  have h3: "backup_switch ?env ?db BackupMethodDockerExec ''ts'' ''default'' ''/tmp/db-backups''
      (job_backupDir ?db) (directory_ready [] ?db BackupMethodDockerExec) =
      ((''backup/postgres/mydb_ts.sql'', None), ?w4)"
    by code_simp
  have h4: "GetFileSize ?env ''backup/postgres/mydb_ts.sql''
      (Type ?db = DatabaseTypeMongoDB) (?w4 @ [Now]) =
      ((''4.0K'', None),
       ?w4 @ [Now, Exec [''du'', ''-h'', ''backup/postgres/mydb_ts.sql'']])"
    by code_simp
  show ?thesis
    using successful_job_outcome [OF h1 h2 h3 h4] by simp
qed

text \<open>
  Claim C9, as the code has it. When creating the backup directory of the database
  type fails, the job returns at once: the result carries the directory-creation
  failure around the error of \<^verbatim>\<open>os.MkdirAll\<close>, the success flag is false, and the
  duration is the time elapsed until \<^verbatim>\<open>os.MkdirAll\<close> had returned. The backup path and
  the size stay empty: no backup command and no size query is run after the failure,
  the clock being the only thing asked.
\<close>

theorem mkdir_failure_short_circuits:
  assumes "mkdirall_result env (at_mkdir w dbConfig method) (job_backupDir dbConfig) octal_0755 =
           Some e"
  shows "fst (backupDatabase env dbConfig method timestamp namespace tempDir w) =
     \<lparr>DatabaseType = Type dbConfig, BackupResult.Database = Database dbConfig,
       Success = False, BackupPath = [], Size = [],
       Error = Some (ErrorfW ''failed to create backup directory'' e),
       Duration = subMono (monotonic_clock env (directory_ready w dbConfig method))
                    (monotonic_clock env w)\<rparr> \<and>
     snd (backupDatabase env dbConfig method timestamp namespace tempDir w) =
       directory_ready w dbConfig method @ [Now] \<and>
     execs (drop (length w)
       (snd (backupDatabase env dbConfig method timestamp namespace tempDir w))) = []"
  by (simp add: backupDatabase_mkdir_failed [OF assms] directory_ready_def at_mkdir_def)

theorem mkdir_failure_short_circuits_witness:
  "fst (backupDatabase (test_env (\<lambda>a. False) (\<lambda>p. True))
       (test_db DatabaseTypeMySQL ''mydb'') BackupMethodDockerRun ''ts'' ''default''
       ''/tmp/db-backups'' []) =
     \<lparr>DatabaseType = DatabaseTypeMySQL, BackupResult.Database = ''mydb'',
       Success = False, BackupPath = [], Size = [],
       Error = Some (ErrorfW ''failed to create backup directory''
                 (ExternalError ''permission denied'')),
       Duration = 3\<rparr> \<and>
   execs (snd (backupDatabase (test_env (\<lambda>a. False) (\<lambda>p. True))
       (test_db DatabaseTypeMySQL ''mydb'') BackupMethodDockerRun ''ts'' ''default''
       ''/tmp/db-backups'' [])) = []"
proof -
  let ?env = "test_env (\<lambda>a. False) (\<lambda>p. True)"
  let ?db = "test_db DatabaseTypeMySQL ''mydb''"
  have h: "mkdirall_result ?env (at_mkdir [] ?db BackupMethodDockerRun) (job_backupDir ?db)
      octal_0755 = Some (ExternalError ''permission denied'')"
    by (simp add: test_env_def)
  show ?thesis
    using mkdir_failure_short_circuits [OF h, of "''ts''" "''default''" "''/tmp/db-backups''"]
    by (simp add: test_env_def test_db_def directory_ready_def at_mkdir_def subMono_def)
qed

text \<open>
  Claim C9 says that the size is still recorded in this case. It is not: in an
  environment that refuses the directory, the size of the result is the empty string
  and no command at all has been run, \<^verbatim>\<open>du\<close> included.
\<close>

theorem mkdir_failure_records_no_size:
  "mkdirall_result (test_env (\<lambda>a. False) (\<lambda>p. True))
     (at_mkdir [] (test_db DatabaseTypePostgres ''mydb'') BackupMethodDockerRun)
     (job_backupDir (test_db DatabaseTypePostgres ''mydb'')) octal_0755 \<noteq> None \<and>
   Size (fst (backupDatabase (test_env (\<lambda>a. False) (\<lambda>p. True))
     (test_db DatabaseTypePostgres ''mydb'') BackupMethodDockerRun ''ts'' ''default''
     ''/tmp/db-backups'' [])) = [] \<and>
   execs (snd (backupDatabase (test_env (\<lambda>a. False) (\<lambda>p. True))
     (test_db DatabaseTypePostgres ''mydb'') BackupMethodDockerRun ''ts'' ''default''
     ''/tmp/db-backups'' [])) = []"
proof -
  let ?env = "test_env (\<lambda>a. False) (\<lambda>p. True)"
  let ?db = "test_db DatabaseTypePostgres ''mydb''"
  have h: "mkdirall_result ?env (at_mkdir [] ?db BackupMethodDockerRun) (job_backupDir ?db)
      octal_0755 = Some (ExternalError ''permission denied'')"
    by (simp add: test_env_def)
  have c1: "mkdirall_result ?env (at_mkdir [] ?db BackupMethodDockerRun) (job_backupDir ?db)
      octal_0755 \<noteq> None"
    using h by simp
  have c2: "Size (fst (backupDatabase ?env ?db BackupMethodDockerRun ''ts'' ''default''
      ''/tmp/db-backups'' [])) = []"
    by (simp add: backupDatabase_mkdir_failed [OF h])
  have c3: "execs (snd (backupDatabase ?env ?db BackupMethodDockerRun ''ts'' ''default''
      ''/tmp/db-backups'' [])) = []"
    by (simp add: backupDatabase_mkdir_failed [OF h] directory_ready_def at_mkdir_def)
  show ?thesis
    using c1 c2 c3 by blast
qed

text \<open>
  Claim C10, as the code has it. Take a job whose database type is none of postgres, mysql, mariadb and
  mongodb, and whose backup directory could be created. The switch on the type runs
  no backup: it leaves the path empty, the error nil and the world as it was. The
  job then asks \<^verbatim>\<open>du -h\<close> for the size of the empty path, and that query failing (as
  \<^verbatim>\<open>du\<close> does on an empty file name), the result has the success flag false, an empty
  backup path, and as failure detail the error of the size measurement wrapped in
  \<^verbatim>\<open>backup created but failed to get size\<close>; nothing in it names an unknown database
  type.
\<close>

theorem unknown_type_job_sized_on_empty_path:
  assumes "\<not> DatabaseType_IsValid (Type dbConfig)"
    and "mkdirall_result env (at_mkdir w dbConfig method) (job_backupDir dbConfig) octal_0755 = None"
    and "exec_result env (directory_ready w dbConfig method @ [Now]) [''du'', ''-h'', []] =
           (out, Some e)"
  shows "backup_switch env dbConfig method timestamp namespace tempDir (job_backupDir dbConfig)
           (directory_ready w dbConfig method) = (([], None), directory_ready w dbConfig method) \<and>
         snd (backupDatabase env dbConfig method timestamp namespace tempDir w) =
           directory_ready w dbConfig method @ [Now, Exec [''du'', ''-h'', []]] \<and>
         Success (fst (backupDatabase env dbConfig method timestamp namespace tempDir w)) = False \<and>
         BackupPath (fst (backupDatabase env dbConfig method timestamp namespace tempDir w)) = [] \<and>
         Error (fst (backupDatabase env dbConfig method timestamp namespace tempDir w)) =
           Some (ErrorfW ''backup created but failed to get size''
                  (ErrorfW ''failed to get file size'' e))"
proof -
  have not_mongo: "(Type dbConfig = DatabaseTypeMongoDB) = False"
    using assms(1) by (simp add: DatabaseType_IsValid_def)
  have sw: "backup_switch env dbConfig method timestamp namespace tempDir (job_backupDir dbConfig)
      (directory_ready w dbConfig method) = (([], None), directory_ready w dbConfig method)"
    using assms(1) by (rule backup_switch_unknown_type)
  have "GetFileSize env [] False (directory_ready w dbConfig method @ [Now]) =
      (([], Some (ErrorfW ''failed to get file size'' e)),
       (directory_ready w dbConfig method @ [Now]) @ [Exec [''du'', ''-h'', []]])"
    using GetFileSize_failed [of env "directory_ready w dbConfig method @ [Now]" False "[]" out e]
      assms(3) by simp
  then have sz: "GetFileSize env [] (Type dbConfig = DatabaseTypeMongoDB)
      (directory_ready w dbConfig method @ [Now]) =
      (([], Some (ErrorfW ''failed to get file size'' e)),
       directory_ready w dbConfig method @ [Now, Exec [''du'', ''-h'', []]])"
    using not_mongo by simp
  show ?thesis
    using sw by (simp add: backupDatabase_size_failed [OF assms(2) sw sz])
qed

theorem unknown_type_job_sized_on_empty_path_witness:
  "snd (backupDatabase (test_env (\<lambda>a. hd a = ''du'') (\<lambda>p. False)) (test_db ''oracle'' ''mydb'')
      BackupMethodDockerExec ''ts'' ''default'' ''/tmp/db-backups'' []) =
     [Now, PrintBackupStart ''oracle'' (test_db ''oracle'' ''mydb'') BackupMethodDockerExec,
      MkdirAll ''backup/oracle'' octal_0755, Now, Exec [''du'', ''-h'', []]] \<and>
   Success (fst (backupDatabase (test_env (\<lambda>a. hd a = ''du'') (\<lambda>p. False))
      (test_db ''oracle'' ''mydb'') BackupMethodDockerExec ''ts'' ''default''
      ''/tmp/db-backups'' [])) = False \<and>
   BackupPath (fst (backupDatabase (test_env (\<lambda>a. hd a = ''du'') (\<lambda>p. False))
      (test_db ''oracle'' ''mydb'') BackupMethodDockerExec ''ts'' ''default''
      ''/tmp/db-backups'' [])) = [] \<and>
   Error (fst (backupDatabase (test_env (\<lambda>a. hd a = ''du'') (\<lambda>p. False))
      (test_db ''oracle'' ''mydb'') BackupMethodDockerExec ''ts'' ''default''
      ''/tmp/db-backups'' [])) =
     Some (ErrorfW ''backup created but failed to get size''
            (ErrorfW ''failed to get file size'' (ExternalError ''exit status 1'')))"
proof -
  let ?env = "test_env (\<lambda>a. hd a = ''du'') (\<lambda>p. False)"
  let ?db = "test_db ''oracle'' ''mydb''"
  have h1: "\<not> DatabaseType_IsValid (Type ?db)"
    by code_simp
  have h2: "mkdirall_result ?env (at_mkdir [] ?db BackupMethodDockerExec) (job_backupDir ?db)
      octal_0755 = None"
    by (simp add: test_env_def)
  have h3: "exec_result ?env (directory_ready [] ?db BackupMethodDockerExec @ [Now])
      [''du'', ''-h'', []] = ([], Some (ExternalError ''exit status 1''))"
    by (simp add: test_env_def)
  have dir: "job_backupDir ?db = ''backup/oracle''"
    by code_simp
  have ty: "Type ?db = ''oracle''"
    by (simp add: test_db_def)
  show ?thesis
    using unknown_type_job_sized_on_empty_path [OF h1 h2 h3, of "''ts''" "''default''"
        "''/tmp/db-backups''"]
    by (simp add: directory_ready_def at_mkdir_def dir ty)
qed

text \<open>
  Claim C10 is stated for every job of an unknown database type. Where the backup
  directory cannot be created it does not hold: the job of type \<^verbatim>\<open>oracle\<close> returns
  before the switch, \<^verbatim>\<open>GetFileSize\<close> is not called (no command at all is run), and the
  failure detail is the directory-creation error, not a size-measurement error.
\<close>

theorem unknown_type_mkdir_failure_skips_size_query:
  "\<not> DatabaseType_IsValid (Type (test_db ''oracle'' ''mydb'')) \<and>
   execs (snd (backupDatabase (test_env (\<lambda>a. True) (\<lambda>p. True))
     (test_db ''oracle'' ''mydb'') BackupMethodDockerRun ''ts'' ''default''
     ''/tmp/db-backups'' [])) = [] \<and>
   Error (fst (backupDatabase (test_env (\<lambda>a. True) (\<lambda>p. True))
     (test_db ''oracle'' ''mydb'') BackupMethodDockerRun ''ts'' ''default''
     ''/tmp/db-backups'' [])) =
     Some (ErrorfW ''failed to create backup directory'' (ExternalError ''permission denied''))"
proof -
  let ?env = "test_env (\<lambda>a. True) (\<lambda>p. True)"
  let ?db = "test_db ''oracle'' ''mydb''"
  have h: "mkdirall_result ?env (at_mkdir [] ?db BackupMethodDockerRun) (job_backupDir ?db)
      octal_0755 = Some (ExternalError ''permission denied'')"
    by (simp add: test_env_def)
  have c1: "\<not> DatabaseType_IsValid (Type ?db)"
    by code_simp
  have c2: "execs (snd (backupDatabase ?env ?db BackupMethodDockerRun ''ts'' ''default''
      ''/tmp/db-backups'' [])) = []"
    by (simp add: backupDatabase_mkdir_failed [OF h] directory_ready_def at_mkdir_def)
  have c3: "Error (fst (backupDatabase ?env ?db BackupMethodDockerRun ''ts'' ''default''
      ''/tmp/db-backups'' [])) =
      Some (ErrorfW ''failed to create backup directory'' (ExternalError ''permission denied''))"
    by (simp add: backupDatabase_mkdir_failed [OF h])
  show ?thesis
    using c1 c2 c3 by blast
qed

text \<open>
  An unrecognised method is rejected by each of the four backups before any command
  is run: only the working directory has been asked for. With a recognised database
  type the job then fails with \<^verbatim>\<open>unknown backup method\<close>, no command run.
\<close>

lemma unknown_method_no_command:
  assumes "\<not> BackupMethod_IsValid method"
  shows "BackupPostgres env config method backupPath namespace w =
           (Some (Errorf (''unknown backup method: '' @ method)), w @ [Getwd])"
    and "BackupMySQL env config method backupPath namespace w =
           (Some (Errorf (''unknown backup method: '' @ method)), w @ [Getwd])"
    and "BackupMariaDB env config method backupPath namespace w =
           (Some (Errorf (''unknown backup method: '' @ method)), w @ [Getwd])"
    and "BackupMongoDB env config method backupPath namespace tempDir w =
           (Some (Errorf (''unknown backup method: '' @ method)), w @ [Getwd])"
  using assms
  by (simp_all add: BackupMethod_IsValid_def BackupPostgres_def BackupMySQL_def
      BackupMariaDB_def BackupMongoDB_def os_Getwd_def split_beta)

lemma database_types_distinct:
  "DatabaseTypeMySQL \<noteq> DatabaseTypePostgres"
  "DatabaseTypeMariaDB \<noteq> DatabaseTypePostgres" "DatabaseTypeMariaDB \<noteq> DatabaseTypeMySQL"
  "DatabaseTypeMongoDB \<noteq> DatabaseTypePostgres" "DatabaseTypeMongoDB \<noteq> DatabaseTypeMySQL"
  "DatabaseTypeMongoDB \<noteq> DatabaseTypeMariaDB"
  by (simp_all add: DatabaseTypePostgres_def DatabaseTypeMySQL_def DatabaseTypeMariaDB_def
      DatabaseTypeMongoDB_def)

lemma backup_switch_unknown_method:
  assumes "\<not> BackupMethod_IsValid method" and "DatabaseType_IsValid (Type dbConfig)"
  shows "snd (fst (backup_switch env dbConfig method timestamp namespace tempDir backupDir w)) =
           Some (Errorf (''unknown backup method: '' @ method)) \<and>
         snd (backup_switch env dbConfig method timestamp namespace tempDir backupDir w) =
           w @ [Getwd]"
proof -
  note no_command = unknown_method_no_command [OF assms(1)]
  from assms(2) consider
    "Type dbConfig = DatabaseTypePostgres" | "Type dbConfig = DatabaseTypeMySQL" |
    "Type dbConfig = DatabaseTypeMariaDB" | "Type dbConfig = DatabaseTypeMongoDB"
    unfolding DatabaseType_IsValid_def by blast
  then show ?thesis
  proof cases
    case 1
    then show ?thesis
      by (simp add: backup_switch_def Let_def no_command)
  next
    case 2
    then show ?thesis
      by (simp add: backup_switch_def Let_def no_command database_types_distinct)
  next
    case 3
    then show ?thesis
      by (simp add: backup_switch_def Let_def no_command database_types_distinct)
  next
    case 4
    then show ?thesis
      by (simp add: backup_switch_def Let_def no_command database_types_distinct)
  qed
qed

lemma unknown_method_rejected:
  assumes "\<not> BackupMethod_IsValid method"
    and "DatabaseType_IsValid (Type dbConfig)"
    and "mkdirall_result env (at_mkdir w dbConfig method) (job_backupDir dbConfig) octal_0755 =
         None"
  shows "Error (fst (backupDatabase env dbConfig method timestamp namespace tempDir w)) =
           Some (Errorf (''unknown backup method: '' @ method)) \<and>
         \<not> Success (fst (backupDatabase env dbConfig method timestamp namespace tempDir w)) \<and>
         execs (drop (length w)
           (snd (backupDatabase env dbConfig method timestamp namespace tempDir w))) = []"
proof -
  obtain backupPath where sw:
    "backup_switch env dbConfig method timestamp namespace tempDir (job_backupDir dbConfig)
       (directory_ready w dbConfig method) =
     ((backupPath, Some (Errorf (''unknown backup method: '' @ method))),
      directory_ready w dbConfig method @ [Getwd])"
    using backup_switch_unknown_method [OF assms(1) assms(2), of env timestamp namespace tempDir
        "job_backupDir dbConfig" "directory_ready w dbConfig method"]
    by (metis prod.collapse)
  show ?thesis
    by (simp add: backupDatabase_backup_failed [OF assms(3) sw] directory_ready_def at_mkdir_def)
qed

text \<open>
  Claim C2 asks that a job with an unrecognised database type fail with a
  configuration error before any external process is started. For the type
  \<^verbatim>\<open>oracle\<close> the job does start one, \<^verbatim>\<open>du -h\<close> on the empty path, and what it reports
  is the failure of that size query.
\<close>

theorem unknown_type_runs_du:
  "\<not> DatabaseType_IsValid ''oracle'' \<and>
   execs (snd (backupDatabase (test_env (\<lambda>a. hd a = ''du'') (\<lambda>p. False))
      (test_db ''oracle'' ''mydb'') BackupMethodDockerRun ''ts'' ''default''
      ''/tmp/db-backups'' [])) = [[''du'', ''-h'', []]] \<and>
   Error (fst (backupDatabase (test_env (\<lambda>a. hd a = ''du'') (\<lambda>p. False))
      (test_db ''oracle'' ''mydb'') BackupMethodDockerRun ''ts'' ''default''
      ''/tmp/db-backups'' [])) =
     Some (ErrorfW ''backup created but failed to get size''
            (ErrorfW ''failed to get file size'' (ExternalError ''exit status 1'')))"
proof -
  let ?env = "test_env (\<lambda>a. hd a = ''du'') (\<lambda>p. False)"
  let ?db = "test_db ''oracle'' ''mydb''"
  have h1: "\<not> DatabaseType_IsValid (Type ?db)"
    by code_simp
  have h2: "mkdirall_result ?env (at_mkdir [] ?db BackupMethodDockerRun) (job_backupDir ?db)
      octal_0755 = None"
    by (simp add: test_env_def)
  have sw: "backup_switch ?env ?db BackupMethodDockerRun ''ts'' ''default'' ''/tmp/db-backups''
      (job_backupDir ?db) (directory_ready [] ?db BackupMethodDockerRun) =
      (([], None), directory_ready [] ?db BackupMethodDockerRun)"
    using h1 by (rule backup_switch_unknown_type)
  have "GetFileSize ?env [] False (directory_ready [] ?db BackupMethodDockerRun @ [Now]) =
      (([], Some (ErrorfW ''failed to get file size'' (ExternalError ''exit status 1''))),
       (directory_ready [] ?db BackupMethodDockerRun @ [Now]) @ [Exec [''du'', ''-h'', []]])"
    using GetFileSize_failed [of ?env "directory_ready [] ?db BackupMethodDockerRun @ [Now]"
        False "[]" "[]" "ExternalError ''exit status 1''"]
    by (simp add: test_env_def)
  moreover have "(Type ?db = DatabaseTypeMongoDB) = False"
    by code_simp
  ultimately have sz: "GetFileSize ?env [] (Type ?db = DatabaseTypeMongoDB)
      (directory_ready [] ?db BackupMethodDockerRun @ [Now]) =
      (([], Some (ErrorfW ''failed to get file size'' (ExternalError ''exit status 1''))),
       directory_ready [] ?db BackupMethodDockerRun @ [Now, Exec [''du'', ''-h'', []]])"
    by simp
  have c1: "\<not> DatabaseType_IsValid ''oracle''"
    by code_simp
  show ?thesis
    using c1 by (simp add: backupDatabase_size_failed [OF h2 sw sz] directory_ready_def
        at_mkdir_def execs_append)
qed

section \<open>MongoDB through an exec transport\<close>

lemma exec_methods_distinct:
  "BackupMethodDockerRun \<noteq> BackupMethodDockerExec"
  "BackupMethodDockerRun \<noteq> BackupMethodKubectlExec"
  "BackupMethodDockerExec \<noteq> BackupMethodKubectlExec"
  by (simp_all add: BackupMethodDockerRun_def BackupMethodDockerExec_def
      BackupMethodKubectlExec_def)

lemma BackupMongoDB_exec:
  assumes "exec_transport method"
  shows "BackupMongoDB env config method backupPath namespace tempDir w =
     mongo_three_phase env
       (remote_create method config namespace tempDir backupPath) (create_failed_message method)
       backupPath
       (copy_out method config namespace tempDir backupPath) (copy_failed_message method)
       (remote_cleanup method config namespace tempDir backupPath) (w @ [Getwd])"
  using assms exec_methods_distinct
  by (auto simp add: exec_transport_def BackupMongoDB_def os_Getwd_def split_beta Let_def
      remote_create_def copy_out_def remote_cleanup_def create_failed_message_def copy_failed_message_def)



lemma mongo_three_phase_copied:
  assumes "snd (exec_result env w1 create) = None"
    and "snd (exec_result env (w1 @ [Exec create, MkdirAll backupPath octal_0755]) copy) = None"
  shows "mongo_three_phase env create msg_a backupPath copy msg_b cleanup w1 =
     (None, w1 @ [Exec create, MkdirAll backupPath octal_0755, Exec copy, Exec cleanup])"
  using assms by (simp add: mongo_three_phase_def cmd_Run_def os_MkdirAll_def)




lemma test_pod_commands:
  "remote_create BackupMethodKubectlExec (test_db DatabaseTypeMongoDB ''mydb'') ''prod''
     ''/tmp/db-backups'' ''backup/mongodb/ts'' =
   [''kubectl'', ''exec'', ''-n'', ''prod'', ''pod-0'', ''--'', ''mongodump'', ''--host'',
    ''localhost'', ''--db'', ''mydb'', ''--out'', ''/tmp/db-backups/ts'']"
  "copy_out BackupMethodKubectlExec (test_db DatabaseTypeMongoDB ''mydb'') ''prod''
     ''/tmp/db-backups'' ''backup/mongodb/ts'' =
   [''kubectl'', ''cp'', ''prod/pod-0:/tmp/db-backups/ts/mydb'', ''backup/mongodb/ts/'']"
  "remote_cleanup BackupMethodKubectlExec (test_db DatabaseTypeMongoDB ''mydb'') ''prod''
     ''/tmp/db-backups'' ''backup/mongodb/ts'' =
   [''kubectl'', ''exec'', ''-n'', ''prod'', ''pod-0'', ''--'', ''rm'', ''-rf'',
    ''/tmp/db-backups/ts'']"
  by code_simp+



text \<open>
  Claim C4. For a MongoDB backup through docker-exec or kubectl-exec in which the
  remote dump and the copy succeed, \<^verbatim>\<open>BackupMongoDB\<close> runs the cleanup last and returns
  nil, whatever the cleanup command answers: nothing is assumed of its exit status,
  and its error reaches neither the returned value nor, through it, the result of
  the job.
\<close>

theorem mongo_cleanup_is_best_effort:
  assumes "exec_transport method"
    and "snd (exec_result env (w @ [Getwd])
           (remote_create method config namespace tempDir backupPath)) = None"
    and "snd (exec_result env
           (w @ [Getwd, Exec (remote_create method config namespace tempDir backupPath),
                 MkdirAll backupPath octal_0755])
           (copy_out method config namespace tempDir backupPath)) = None"
  shows "BackupMongoDB env config method backupPath namespace tempDir w =
     (None,
      w @ [Getwd, Exec (remote_create method config namespace tempDir backupPath),
           MkdirAll backupPath octal_0755,
           Exec (copy_out method config namespace tempDir backupPath),
           Exec (remote_cleanup method config namespace tempDir backupPath)])"
  using mongo_three_phase_copied [of env "w @ [Getwd]"
      "remote_create method config namespace tempDir backupPath" backupPath
      "copy_out method config namespace tempDir backupPath"] assms(2) assms(3)
  by (simp add: BackupMongoDB_exec [OF assms(1)])

theorem mongo_cleanup_is_best_effort_witness:
  "snd (exec_result (test_env (\<lambda>a. ''rm'' \<in> set a) (\<lambda>p. False))
     [Getwd,
      Exec [''kubectl'', ''exec'', ''-n'', ''prod'', ''pod-0'', ''--'', ''mongodump'', ''--host'',
            ''localhost'', ''--db'', ''mydb'', ''--out'', ''/tmp/db-backups/ts''],
      MkdirAll ''backup/mongodb/ts'' octal_0755,
      Exec [''kubectl'', ''cp'', ''prod/pod-0:/tmp/db-backups/ts/mydb'', ''backup/mongodb/ts/'']]
     [''kubectl'', ''exec'', ''-n'', ''prod'', ''pod-0'', ''--'', ''rm'', ''-rf'',
      ''/tmp/db-backups/ts'']) =
     Some (ExternalError ''exit status 1'') \<and>
   BackupMongoDB (test_env (\<lambda>a. ''rm'' \<in> set a) (\<lambda>p. False))
     (test_db DatabaseTypeMongoDB ''mydb'') BackupMethodKubectlExec ''backup/mongodb/ts''
     ''prod'' ''/tmp/db-backups'' [] =
     (None,
      [Getwd,
       Exec [''kubectl'', ''exec'', ''-n'', ''prod'', ''pod-0'', ''--'', ''mongodump'', ''--host'',
             ''localhost'', ''--db'', ''mydb'', ''--out'', ''/tmp/db-backups/ts''],
       MkdirAll ''backup/mongodb/ts'' octal_0755,
       Exec [''kubectl'', ''cp'', ''prod/pod-0:/tmp/db-backups/ts/mydb'', ''backup/mongodb/ts/''],
       Exec [''kubectl'', ''exec'', ''-n'', ''prod'', ''pod-0'', ''--'', ''rm'', ''-rf'',
             ''/tmp/db-backups/ts'']])"
proof -
  let ?db = "test_db DatabaseTypeMongoDB ''mydb''"
  let ?env = "test_env (\<lambda>a. ''rm'' \<in> set a) (\<lambda>p. False)"
  have t: "exec_transport BackupMethodKubectlExec"
    by (simp add: exec_transport_def)
  have a_ok: "snd (exec_result ?env ([] @ [Getwd])
      (remote_create BackupMethodKubectlExec ?db ''prod'' ''/tmp/db-backups''
        ''backup/mongodb/ts'')) = None"
    by (simp add: test_pod_commands test_env_def)
  have b_ok: "snd (exec_result ?env
      ([] @ [Getwd, Exec (remote_create BackupMethodKubectlExec ?db ''prod''
               ''/tmp/db-backups'' ''backup/mongodb/ts''),
             MkdirAll ''backup/mongodb/ts'' octal_0755])
      (copy_out BackupMethodKubectlExec ?db ''prod'' ''/tmp/db-backups''
        ''backup/mongodb/ts'')) = None"
    by (simp add: test_pod_commands test_env_def)
  have c_fails: "snd (exec_result ?env
     [Getwd,
      Exec [''kubectl'', ''exec'', ''-n'', ''prod'', ''pod-0'', ''--'', ''mongodump'', ''--host'',
            ''localhost'', ''--db'', ''mydb'', ''--out'', ''/tmp/db-backups/ts''],
      MkdirAll ''backup/mongodb/ts'' octal_0755,
      Exec [''kubectl'', ''cp'', ''prod/pod-0:/tmp/db-backups/ts/mydb'', ''backup/mongodb/ts/'']]
     [''kubectl'', ''exec'', ''-n'', ''prod'', ''pod-0'', ''--'', ''rm'', ''-rf'',
      ''/tmp/db-backups/ts'']) =
     Some (ExternalError ''exit status 1'')"
    by (simp add: test_env_def)
  show ?thesis
    using mongo_cleanup_is_best_effort [OF t a_ok b_ok] c_fails
    by (simp add: test_pod_commands)
qed

section \<open>The size inspector\<close>

text \<open>
  The loop of \<^verbatim>\<open>FieldsFunc\<close> against the direct description of a token: with a field
  open, the field runs to the next separator; with none open, separators are skipped
  and the next field starts at the first rune that is not one.
\<close>

lemma FieldsFunc_loop_open:
  "FieldsFunc_loop f rs (Some cur) =
     (cur @ concat (map snd (takeWhile (\<lambda>(r, bytes). \<not> f r) rs))) #
     FieldsFunc_loop f (dropWhile (\<lambda>(r, bytes). \<not> f r) rs) None"
  by (induction rs arbitrary: cur) auto

lemma FieldsFunc_loop_closed:
  "FieldsFunc_loop f rs None =
     (let rest = dropWhile (\<lambda>(r, bytes). f r) rs in
      if rest = [] then []
      else concat (map snd (takeWhile (\<lambda>(r, bytes). \<not> f r) rest)) #
           FieldsFunc_loop f (dropWhile (\<lambda>(r, bytes). \<not> f r) rest) None)"
  by (induction rs) (force simp: FieldsFunc_loop_open Let_def)+

lemma strings_Fields_first_token:
  "strings_Fields s =
     (case first_token s of
        None \<Rightarrow> []
      | Some tok \<Rightarrow>
          tok # FieldsFunc_loop unicode_IsSpace
                  (dropWhile (\<lambda>(r, bytes). \<not> unicode_IsSpace r)
                    (dropWhile (\<lambda>(r, bytes). unicode_IsSpace r) (runes s))) None)"
  unfolding strings_Fields_def first_token_def
  by (subst FieldsFunc_loop_closed) (simp add: Let_def)

text \<open>
  Decoding loses nothing: every rune takes at least one byte, and the bytes of the
  runes, put together again, are the string.
\<close>

lemma DecodeRuneInString_width:
  "s \<noteq> [] \<Longrightarrow> 1 \<le> snd (DecodeRuneInString s) \<and> snd (DecodeRuneInString s) \<le> length s"
  by (cases s) (auto simp: DecodeRuneInString_def Let_def Suc_le_eq)

lemma runes_bytes: "concat (map snd (runes s)) = s"
proof (induction s rule: runes.induct)
  case (1 s)
  show ?case
  proof (cases "s = []")
    case True
    then show ?thesis by (simp add: runes.simps)
  next
    case False
    with 1 have "concat (map snd (runes (drop (snd (DecodeRuneInString s)) s))) =
        drop (snd (DecodeRuneInString s)) s"
      by simp
    with False show ?thesis
      by (subst runes.simps) simp
  qed
qed

lemma runes_nonempty_bytes: "(r, bytes) \<in> set (runes s) \<Longrightarrow> bytes \<noteq> []"
proof (induction s rule: runes.induct)
  case (1 s)
  show ?case
  proof (cases "s = []")
    case True
    with 1(2) show ?thesis by (simp add: runes.simps)
  next
    case False
    from 1(2) False have "(r, bytes) = (fst (DecodeRuneInString s), take (snd (DecodeRuneInString s)) s)
        \<or> (r, bytes) \<in> set (runes (drop (snd (DecodeRuneInString s)) s))"
      by (subst (asm) runes.simps) simp
    then show ?thesis
    proof
      assume "(r, bytes) = (fst (DecodeRuneInString s), take (snd (DecodeRuneInString s)) s)"
      with False DecodeRuneInString_width [of s] show ?thesis by auto
    next
      assume "(r, bytes) \<in> set (runes (drop (snd (DecodeRuneInString s)) s))"
      with 1(1) False show ?thesis by simp
    qed
  qed
qed

text \<open>
  What \<open>first_token\<close> returns really is the first token: the string is blanks, then
  the token, then the rest; the token is not empty and has no white space in it, and
  the rest is empty or starts with white space. When there is no token the string is
  white space only.
\<close>

lemma first_token_shape:
  assumes "first_token s = Some tok"
  shows "\<exists>blanks token_runes rest.
     runes s = blanks @ token_runes @ rest \<and>
     (\<forall>(r, bytes) \<in> set blanks. unicode_IsSpace r) \<and>
     token_runes \<noteq> [] \<and>
     (\<forall>(r, bytes) \<in> set token_runes. \<not> unicode_IsSpace r) \<and>
     (rest = [] \<or> unicode_IsSpace (fst (hd rest))) \<and>
     tok = concat (map snd token_runes) \<and> tok \<noteq> [] \<and>
     s = concat (map snd blanks) @ tok @ concat (map snd rest)"
proof -
  let ?sp = "\<lambda>(r, bytes :: string). unicode_IsSpace r"
  let ?nsp = "\<lambda>(r, bytes :: string). \<not> unicode_IsSpace r"
  let ?A = "takeWhile ?sp (runes s)"
  let ?R = "dropWhile ?sp (runes s)"
  let ?T = "takeWhile ?nsp ?R"
  let ?B = "dropWhile ?nsp ?R"
  from assms have R: "?R \<noteq> []" and tok: "tok = concat (map snd ?T)"
    by (auto simp: first_token_def Let_def split: if_splits)
  have split: "runes s = ?A @ ?T @ ?B"
    by simp
  have A: "\<forall>(r, bytes) \<in> set ?A. unicode_IsSpace r"
    by (auto dest: set_takeWhileD)
  have "?nsp (hd ?R)"
    using R hd_dropWhile [of ?sp "runes s"] by (auto simp: case_prod_beta)
  then have T: "?T \<noteq> []"
    using R by (cases ?R) auto
  have Tn: "\<forall>(r, bytes) \<in> set ?T. \<not> unicode_IsSpace r"
    by (auto dest: set_takeWhileD)
  have B: "?B = [] \<or> unicode_IsSpace (fst (hd ?B))"
    using hd_dropWhile [of ?nsp ?R] by (auto simp: case_prod_beta)
  obtain r bytes where hdT: "(r, bytes) \<in> set ?T"
    using T by (cases ?T) auto
  then have "(r, bytes) \<in> set (runes s)"
    by (auto dest!: set_takeWhileD set_dropWhileD)
  then have "bytes \<noteq> []"
    by (rule runes_nonempty_bytes)
  with hdT have tok_ne: "tok \<noteq> []"
    unfolding tok by force
  have "concat (map snd (runes s)) =
      concat (map snd ?A) @ concat (map snd ?T) @ concat (map snd ?B)"
    using arg_cong [OF split, of "\<lambda>x. concat (map snd x)"]
    by (simp only: map_append concat_append)
  then have whole: "s = concat (map snd ?A) @ tok @ concat (map snd ?B)"
    unfolding tok by (simp only: runes_bytes)
  from split A T Tn B tok tok_ne whole show ?thesis
    by blast
qed

lemma first_token_none:
  assumes "first_token s = None"
  shows "\<forall>(r, bytes) \<in> set (runes s). unicode_IsSpace r"
proof -
  from assms have "dropWhile (\<lambda>(r, bytes). unicode_IsSpace r) (runes s) = []"
    by (auto simp: first_token_def Let_def split: if_splits)
  then show ?thesis
    by (auto simp: dropWhile_eq_Nil_conv)
qed

lemma GetFileSize_measured:
  assumes "exec_result env w [''du'', if isDirectory then ''-sh'' else ''-h'', path] =
           (output, None)"
  shows "fst (GetFileSize env path isDirectory w) =
     (case first_token output of
        Some tok \<Rightarrow> (tok, None)
      | None \<Rightarrow> (''unknown'', None))"
  using assms
  by (cases isDirectory)
     (simp_all add: GetFileSize_def cmd_Output_def Let_def strings_Fields_first_token
       split: option.splits)

text \<open>
  Claim C8. For every path, \<^verbatim>\<open>GetFileSize\<close> runs exactly one command: \<^verbatim>\<open>du -sh\<close> on the
  path when \<^verbatim>\<open>isDirectory\<close> is true, \<^verbatim>\<open>du -h\<close> on it otherwise. When that command
  succeeds, the result is the first white-space-delimited token of its output with a
  nil error, and the string \<^verbatim>\<open>unknown\<close> with a nil error when the output has no token.
\<close>

theorem GetFileSize_first_token_or_unknown:
  "snd (GetFileSize env path isDirectory w) =
     w @ [Exec [''du'', if isDirectory then ''-sh'' else ''-h'', path]] \<and>
   (exec_result env w [''du'', if isDirectory then ''-sh'' else ''-h'', path] = (output, None) \<longrightarrow>
    fst (GetFileSize env path isDirectory w) =
      (case first_token output of
         Some tok \<Rightarrow> (tok, None)
       | None \<Rightarrow> (''unknown'', None)))"
  using GetFileSize_world GetFileSize_measured by blast

theorem GetFileSize_first_token_or_unknown_witness:
  "GetFileSize (test_env (\<lambda>a. False) (\<lambda>p. False)) ''backup/mongodb/ts'' True [] =
     ((''4.0K'', None), [Exec [''du'', ''-sh'', ''backup/mongodb/ts'']]) \<and>
   GetFileSize blank_env ''backup/mysql/db_ts.sql'' False [] =
     ((''unknown'', None), [Exec [''du'', ''-h'', ''backup/mysql/db_ts.sql'']])"
proof -
  let ?env = "test_env (\<lambda>a. False) (\<lambda>p. False)"
  have out1: "exec_result ?env [] [''du'', if True then ''-sh'' else ''-h'', ''backup/mongodb/ts''] =
      (''4.0K'' @ [CHR 0x09] @ ''backup'' @ [CHR 0x0A], None)"
    by (simp add: test_env_def)
  have tok1: "first_token (''4.0K'' @ [CHR 0x09] @ ''backup'' @ [CHR 0x0A]) = Some ''4.0K''"
    by code_simp
  have out2: "exec_result blank_env [] [''du'', if False then ''-sh'' else ''-h'',
      ''backup/mysql/db_ts.sql''] = (''  '' @ [CHR 0x0A], None)"
    by (simp add: blank_env_def)
  have tok2: "first_token (''  '' @ [CHR 0x0A]) = None"
    by code_simp
  have r1: "GetFileSize ?env ''backup/mongodb/ts'' True [] =
      ((''4.0K'', None), [Exec [''du'', ''-sh'', ''backup/mongodb/ts'']])"
    using GetFileSize_first_token_or_unknown [of ?env "''backup/mongodb/ts''" True "[]"
        "''4.0K'' @ [CHR 0x09] @ ''backup'' @ [CHR 0x0A]"] out1 tok1
    by (simp add: prod_eq_iff)
  have r2: "GetFileSize blank_env ''backup/mysql/db_ts.sql'' False [] =
      ((''unknown'', None), [Exec [''du'', ''-h'', ''backup/mysql/db_ts.sql'']])"
    using GetFileSize_first_token_or_unknown [of blank_env "''backup/mysql/db_ts.sql''" False
        "[]" "''  '' @ [CHR 0x0A]"] out2 tok2
    by (simp add: prod_eq_iff)
  show ?thesis
    using r1 r2 by blast
qed

section \<open>The destination path\<close>

text \<open>
  \<^verbatim>\<open>Clean\<close> on a relative path of plain elements: each element is copied, with a
  separator before it unless it is the first, and each separator is skipped.
\<close>

lemma takeWhile_element:
  assumes "CHR ''/'' \<notin> set cs" and "rest = [] \<or> hd rest = CHR ''/''"
  shows "takeWhile (\<lambda>x. x \<noteq> CHR ''/'') (cs @ rest) = cs"
    and "dropWhile (\<lambda>x. x \<noteq> CHR ''/'') (cs @ rest) = rest"
proof -
  have all: "\<And>x. x \<in> set cs \<Longrightarrow> x \<noteq> CHR ''/''"
    using assms(1) by blast
  have t: "takeWhile (\<lambda>x. x \<noteq> CHR ''/'') rest = []"
    using assms(2) by (cases rest) auto
  have d: "dropWhile (\<lambda>x. x \<noteq> CHR ''/'') rest = rest"
    using assms(2) by (cases rest) auto
  show "takeWhile (\<lambda>x. x \<noteq> CHR ''/'') (cs @ rest) = cs"
    using takeWhile_append2 [of cs "\<lambda>x. x \<noteq> CHR ''/''" rest] all t by simp
  show "dropWhile (\<lambda>x. x \<noteq> CHR ''/'') (cs @ rest) = rest"
    using dropWhile_append2 [of cs "\<lambda>x. x \<noteq> CHR ''/''" rest] all d by simp
qed

lemma Clean_loop_copies_element:
  assumes "plain_element e" and "rest = [] \<or> hd rest = CHR ''/''"
  shows "Clean_loop False (e @ rest) out dotdot =
         Clean_loop False rest ((if out = [] then [] else out @ ''/'') @ e) dotdot"
proof -
  from assms(1) obtain c cs where e: "e = c # cs"
    by (cases e) (auto simp: plain_element_def)
  from assms(1) e have c: "c \<noteq> CHR ''/''" and cs: "CHR ''/'' \<notin> set cs"
    by (auto simp: plain_element_def)
  have dot: "(c = CHR ''.'' \<and> (cs @ rest = [] \<or> hd (cs @ rest) = CHR ''/'')) = False"
  proof (cases cs)
    case Nil
    with assms(1) e show ?thesis by (auto simp: plain_element_def)
  next
    case (Cons d ds)
    with cs show ?thesis by auto
  qed
  have dotdot: "(c = CHR ''.'' \<and> cs @ rest \<noteq> [] \<and> hd (cs @ rest) = CHR ''.'' \<and>
      (tl (cs @ rest) = [] \<or> hd (tl (cs @ rest)) = CHR ''/'')) = False"
  proof (cases cs)
    case Nil
    with assms(1) e show ?thesis by (auto simp: plain_element_def)
  next
    case (Cons d ds)
    show ?thesis
    proof (cases ds)
      case Nil
      with Cons assms(1) e show ?thesis by (auto simp: plain_element_def)
    next
      case (Cons d' ds')
      with \<open>cs = d # ds\<close> cs show ?thesis by auto
    qed
  qed
  have sep: "((False \<and> length out \<noteq> 1) \<or> (\<not> False \<and> length out \<noteq> 0)) = (out \<noteq> [])"
    by simp
  have "Clean_loop False (c # (cs @ rest)) out dotdot =
      Clean_loop False rest ((if out \<noteq> [] then out @ ''/'' else out) @ c # cs) dotdot"
    by (subst Clean_loop.simps(2))
       (simp only: c dot dotdot sep if_False takeWhile_element [OF cs assms(2)])
  then show ?thesis
    using e by (cases "out = []") simp_all
qed

lemma Clean_loop_skips_separator:
  "Clean_loop rooted (CHR ''/'' # rest) out dotdot = Clean_loop rooted rest out dotdot"
  by (subst Clean_loop.simps(2)) (simp only: refl if_True)

lemma Clean_three_elements:
  assumes "plain_element a" and "plain_element b" and "plain_element c"
  shows "filepath_Clean (a @ ''/'' @ b @ ''/'' @ c) = a @ ''/'' @ b @ ''/'' @ c"
proof -
  from assms(1) obtain x xs where a: "a = x # xs" and x: "x \<noteq> CHR ''/''"
    by (cases a) (auto simp: plain_element_def)
  have a_ne: "a \<noteq> []"
    using a by simp
  have "Clean_loop False (a @ (CHR ''/'' # b @ CHR ''/'' # c)) [] 0 =
      Clean_loop False (CHR ''/'' # b @ CHR ''/'' # c) a 0"
    using Clean_loop_copies_element [OF assms(1), of "CHR ''/'' # b @ CHR ''/'' # c" "[]" 0]
    by simp
  also have "\<dots> = Clean_loop False (b @ (CHR ''/'' # c)) a 0"
    by (rule Clean_loop_skips_separator)
  also have "\<dots> = Clean_loop False (CHR ''/'' # c) (a @ ''/'' @ b) 0"
    using Clean_loop_copies_element [OF assms(2), of "CHR ''/'' # c" a 0] a_ne
    by simp
  also have "\<dots> = Clean_loop False (c @ []) (a @ ''/'' @ b) 0"
    by (simp only: Clean_loop_skips_separator append_Nil2)
  also have "\<dots> = Clean_loop False [] ((a @ ''/'' @ b) @ ''/'' @ c) 0"
    using Clean_loop_copies_element [OF assms(3), of "[]" "a @ ''/'' @ b" 0] a_ne
    by simp
  also have "\<dots> = a @ ''/'' @ b @ ''/'' @ c"
    by (simp add: Clean_loop.simps(1))
  finally have loop:
    "Clean_loop False (a @ (CHR ''/'' # b @ CHR ''/'' # c)) [] 0 = a @ ''/'' @ b @ ''/'' @ c" .
  have path: "a @ ''/'' @ b @ ''/'' @ c = x # (xs @ (CHR ''/'' # b @ CHR ''/'' # c))"
    using a by simp
  have "filepath_Clean (x # (xs @ (CHR ''/'' # b @ CHR ''/'' # c))) =
      x # (xs @ (CHR ''/'' # b @ CHR ''/'' # c))"
    unfolding filepath_Clean_def Let_def
    using loop x a by simp
  then show ?thesis
    by (simp only: path)
qed

text \<open>
  The timestamp is made of decimal digits, \<^verbatim>\<open>-\<close> and \<^verbatim>\<open>_\<close> only, so it is a plain
  element, and so is the name of a dump file when the database name has no separator
  in it. For calendar fields in range it has the shape \<^verbatim>\<open>YYYY-MM-DD_HH-MM-SS\<close>.
\<close>

lemma digit_char: "n < 10 \<Longrightarrow> ''0123456789'' ! n \<in> set ''0123456789''"
  by (rule nth_mem) simp

lemma digits_chars: "set (digits n) \<subseteq> set ''0123456789''"
proof (induction n rule: digits.induct)
  case (1 n)
  show ?case
  proof (cases "n < 10")
    case True
    then show ?thesis
      using digit_char [of n] by (subst digits.simps) simp
  next
    case False
    have "n mod 10 < 10" by simp
    then have "''0123456789'' ! (n mod 10) \<in> set ''0123456789''"
      by (rule digit_char)
    with False 1 show ?thesis
      by (subst digits.simps) simp
  qed
qed

lemma digits_not_empty: "digits n \<noteq> []"
  by (subst digits.simps) simp

lemma digits_length:
  "n < 10 \<Longrightarrow> length (digits n) = 1"
  "n < 100 \<Longrightarrow> length (digits n) \<le> 2"
  "n < 10000 \<Longrightarrow> length (digits n) \<le> 4"
proof -
  show l1: "length (digits n) = 1" if "n < 10" for n
    using that by (subst digits.simps) simp
  show l2: "length (digits n) \<le> 2" if "n < 100" for n
  proof (cases "n < 10")
    case True
    then show ?thesis using l1 [of n] by simp
  next
    case False
    from that have "n div 10 < 10" by simp
    then have "length (digits (n div 10)) = 1" by (rule l1)
    with False show ?thesis by (subst digits.simps) simp
  qed
  have l3: "length (digits n) \<le> 3" if "n < 1000" for n
  proof (cases "n < 10")
    case True
    then show ?thesis using l1 [of n] by simp
  next
    case False
    from that have "n div 10 < 100" by simp
    then have "length (digits (n div 10)) \<le> 2" by (rule l2)
    with False show ?thesis by (subst digits.simps) simp
  qed
  show "length (digits n) \<le> 4" if "n < 10000" for n
  proof (cases "n < 10")
    case True
    then show ?thesis using l1 [of n] by simp
  next
    case False
    from that have "n div 10 < 1000" by simp
    then have "length (digits (n div 10)) \<le> 3" by (rule l3)
    with False show ?thesis by (subst digits.simps) simp
  qed
qed

lemma appendInt_chars: "set (appendInt x width) \<subseteq> insert (CHR ''-'') (set ''0123456789'')"
proof -
  define D where "D = set ''0123456789''"
  have sign: "set (if x < 0 then ''-'' else []) \<subseteq> insert (CHR ''-'') D"
    by (cases "x < 0") simp_all
  have "CHR ''0'' \<in> D"
    by (simp add: D_def)
  then have zeros: "set (replicate (width - length (digits (nat \<bar>x\<bar>))) (CHR ''0'')) \<subseteq>
      insert (CHR ''-'') D"
    by (auto simp: set_replicate_conv_if)
  have ds: "set (digits (nat \<bar>x\<bar>)) \<subseteq> insert (CHR ''-'') D"
    using digits_chars [of "nat \<bar>x\<bar>"] unfolding D_def by blast
  have "set (appendInt x width) \<subseteq> insert (CHR ''-'') D"
    unfolding appendInt_def set_append using sign zeros ds by blast
  then show ?thesis
    by (simp only: D_def)
qed

lemma Format_timestamp_chars:
  "set (Format_timestamp t) \<subseteq> insert (CHR ''_'') (insert (CHR ''-'') (set ''0123456789''))"
proof -
  define T where "T = insert (CHR ''_'') (insert (CHR ''-'') (set ''0123456789''))"
  have field: "set (appendInt x width) \<subseteq> T" for x width
    using appendInt_chars [of x width] unfolding T_def by blast
  have dash: "set ''-'' \<subseteq> T" and underscore: "set ''_'' \<subseteq> T"
    by (simp_all add: T_def)
  have "set (Format_timestamp t) \<subseteq> T"
    unfolding Format_timestamp_def set_append
    by (intro Un_least field dash underscore)
  then show ?thesis
    by (simp only: T_def)
qed

lemma Format_timestamp_has_separator: "CHR ''_'' \<in> set (Format_timestamp t)"
  by (simp add: Format_timestamp_def)

lemma separator_not_in_dots:
  "CHR ''_'' \<in> set s \<Longrightarrow> s \<noteq> [] \<and> s \<noteq> ''.'' \<and> s \<noteq> ''..''"
  by auto

lemma Format_timestamp_plain: "plain_element (Format_timestamp t)"
proof -
  have sub: "set (Format_timestamp t) \<subseteq>
      insert (CHR ''_'') (insert (CHR ''-'') (set ''0123456789''))"
    by (rule Format_timestamp_chars)
  have "CHR ''/'' \<notin> insert (CHR ''_'') (insert (CHR ''-'') (set ''0123456789''))"
    by simp
  with sub have no_slash: "CHR ''/'' \<notin> set (Format_timestamp t)"
    by blast
  from separator_not_in_dots [OF Format_timestamp_has_separator [of t]] no_slash
  show ?thesis
    by (simp add: plain_element_def)
qed

lemma sql_file_name_plain:
  assumes "CHR ''/'' \<notin> set db"
  shows "plain_element (db @ ''_'' @ Format_timestamp t @ ''.sql'')"
proof -
  let ?name = "db @ ''_'' @ Format_timestamp t @ ''.sql''"
  have "CHR ''/'' \<notin> set (Format_timestamp t)"
    using Format_timestamp_plain [of t] by (simp add: plain_element_def)
  with assms have no_slash: "CHR ''/'' \<notin> set ?name"
    by simp
  have mem: "CHR ''_'' \<in> set ?name"
    by simp
  from separator_not_in_dots [OF mem] no_slash show ?thesis
    unfolding plain_element_def by blast
qed

lemma two_digits:
  assumes "n < 100"
  shows "list_all2 (\<lambda>p c. if p = CHR ''d'' then c \<in> set ''0123456789'' else c = p)
           ''dd'' (appendInt (int n) 2)"
proof -
  let ?s = "appendInt (int n) 2"
  have len: "length ?s = 2"
    using digits_length(2) [OF assms] by (simp add: appendInt_def)
  have "set ?s \<subseteq> insert (CHR ''0'') (set (digits n))"
    by (auto simp: appendInt_def)
  with digits_chars [of n] have chars: "set ?s \<subseteq> set ''0123456789''"
    by auto
  from len obtain a b where s: "?s = [a, b]"
    by (auto simp: length_Suc_conv numeral_eq_Suc)
  with chars have "a \<in> set ''0123456789''" and "b \<in> set ''0123456789''"
    by simp_all
  then show ?thesis
    by (simp only: s) simp
qed

lemma four_digits:
  assumes "0 \<le> y" and "y \<le> 9999"
  shows "list_all2 (\<lambda>p c. if p = CHR ''d'' then c \<in> set ''0123456789'' else c = p)
           ''dddd'' (appendInt y 4)"
proof -
  let ?s = "appendInt y 4"
  from assms have n: "nat \<bar>y\<bar> < 10000" by simp
  have len: "length ?s = 4"
    using digits_length(3) [OF n] assms(1) by (simp add: appendInt_def)
  have "set ?s \<subseteq> insert (CHR ''0'') (set (digits (nat \<bar>y\<bar>)))"
    using assms(1) by (auto simp: appendInt_def)
  with digits_chars [of "nat \<bar>y\<bar>"] have chars: "set ?s \<subseteq> set ''0123456789''"
    by auto
  from len obtain a b c d where s: "?s = [a, b, c, d]"
    by (auto simp: length_Suc_conv numeral_eq_Suc)
  with chars have "a \<in> set ''0123456789''" and "b \<in> set ''0123456789''"
    and "c \<in> set ''0123456789''" and "d \<in> set ''0123456789''"
    by simp_all
  then show ?thesis
    by (simp only: s) simp
qed

lemma Format_timestamp_shape:
  assumes "calendar_time t"
  shows "timestamp_shape (Format_timestamp t)"
proof -
  let ?P = "\<lambda>p c. if p = CHR ''d'' then c \<in> set ''0123456789'' else c = p"
  from assms have y: "0 \<le> year t" "year t \<le> 9999" and mo: "month t < 100"
    and d: "day t < 100" and h: "hour t < 100" and mi: "minute t < 100"
    and s: "second t < 100"
    by (simp_all add: calendar_time_def)
  have sep: "list_all2 ?P ''-'' ''-''" "list_all2 ?P ''_'' ''_''"
    by simp_all
  have "list_all2 ?P
      (''dddd'' @ ''-'' @ ''dd'' @ ''-'' @ ''dd'' @ ''_'' @ ''dd'' @ ''-'' @ ''dd'' @ ''-'' @ ''dd'')
      (appendInt (year t) 4 @ ''-'' @ appendInt (int (month t)) 2 @ ''-'' @
       appendInt (int (day t)) 2 @ ''_'' @ appendInt (int (hour t)) 2 @ ''-'' @
       appendInt (int (minute t)) 2 @ ''-'' @ appendInt (int (second t)) 2)"
    by (intro list_all2_appendI four_digits [OF y] two_digits [OF mo] two_digits [OF d]
        two_digits [OF h] two_digits [OF mi] two_digits [OF s] sep)
  then show ?thesis
    by (simp add: timestamp_shape_def Format_timestamp_def)
qed

lemma known_backupDir:
  "Type dbConfig = DatabaseTypePostgres \<Longrightarrow> job_backupDir dbConfig = ''backup/postgres''"
  "Type dbConfig = DatabaseTypeMySQL \<Longrightarrow> job_backupDir dbConfig = ''backup/mysql''"
  "Type dbConfig = DatabaseTypeMariaDB \<Longrightarrow> job_backupDir dbConfig = ''backup/mariadb''"
  "Type dbConfig = DatabaseTypeMongoDB \<Longrightarrow> job_backupDir dbConfig = ''backup/mongodb''"
proof -
  have "filepath_Join [''backup'', DatabaseTypePostgres] = ''backup/postgres''"
    "filepath_Join [''backup'', DatabaseTypeMySQL] = ''backup/mysql''"
    "filepath_Join [''backup'', DatabaseTypeMariaDB] = ''backup/mariadb''"
    "filepath_Join [''backup'', DatabaseTypeMongoDB] = ''backup/mongodb''"
    by code_simp+
  then show
    "Type dbConfig = DatabaseTypePostgres \<Longrightarrow> job_backupDir dbConfig = ''backup/postgres''"
    "Type dbConfig = DatabaseTypeMySQL \<Longrightarrow> job_backupDir dbConfig = ''backup/mysql''"
    "Type dbConfig = DatabaseTypeMariaDB \<Longrightarrow> job_backupDir dbConfig = ''backup/mariadb''"
    "Type dbConfig = DatabaseTypeMongoDB \<Longrightarrow> job_backupDir dbConfig = ''backup/mongodb''"
    by (simp_all add: job_backupDir_def)
qed

lemma plain_type_names:
  "plain_element ''backup''" "plain_element ''postgres''" "plain_element ''mysql''"
  "plain_element ''mariadb''" "plain_element ''mongodb''"
  by (simp_all add: plain_element_def)

lemma Join_under_type_dir:
  assumes "plain_element ty" and "plain_element name"
  shows "filepath_Join [''backup/'' @ ty, name] = ''backup/'' @ ty @ ''/'' @ name"
proof -
  have "filepath_Join [''backup/'' @ ty, name] = filepath_Clean ((''backup/'' @ ty) @ ''/'' @ name)"
    by simp
  also have "\<dots> = filepath_Clean (''backup'' @ ''/'' @ ty @ ''/'' @ name)"
    by simp
  also have "\<dots> = ''backup'' @ ''/'' @ ty @ ''/'' @ name"
    using plain_type_names(1) assms by (rule Clean_three_elements)
  finally show ?thesis
    by simp
qed

lemma backup_switch_path:
  "fst (fst (backup_switch env dbConfig method timestamp namespace tempDir backupDir w)) =
     (if Type dbConfig = DatabaseTypePostgres \<or> Type dbConfig = DatabaseTypeMySQL \<or>
         Type dbConfig = DatabaseTypeMariaDB
      then filepath_Join [backupDir, Database dbConfig @ ''_'' @ timestamp @ ''.sql'']
      else if Type dbConfig = DatabaseTypeMongoDB then filepath_Join [backupDir, timestamp]
      else [])"
  by (simp add: backup_switch_def Let_def split_beta)

lemma backupDatabase_BackupPath:
  assumes "mkdirall_result env (at_mkdir w dbConfig method) (job_backupDir dbConfig) octal_0755 =
           None"
  shows "BackupPath (fst (backupDatabase env dbConfig method timestamp namespace tempDir w)) =
     fst (fst (backup_switch env dbConfig method timestamp namespace tempDir
       (job_backupDir dbConfig) (directory_ready w dbConfig method)))"
  using assms
  by (simp add: backupDatabase_def Let_def split_beta time_Now_def time_Since_def os_MkdirAll_def
      at_mkdir_def directory_ready_def job_backupDir_def split: option.splits)

lemma sql_types_distinct_from_mongodb:
  "DatabaseTypePostgres \<noteq> DatabaseTypeMongoDB" "DatabaseTypeMySQL \<noteq> DatabaseTypeMongoDB"
  "DatabaseTypeMariaDB \<noteq> DatabaseTypeMongoDB"
  by (simp_all add: DatabaseTypePostgres_def DatabaseTypeMySQL_def DatabaseTypeMariaDB_def
      DatabaseTypeMongoDB_def)

text \<open>
  Claim C7, as the code has it. For a job whose backup directory could be created,
  with the timestamp of the batch formatted from its time \<open>t\<close>: for postgres, mysql
  and mariadb the destination path is what \<^verbatim>\<open>filepath.Join\<close> makes of the backup
  directory and \<^verbatim>\<open>{databaseName}_{timestamp}.sql\<close>, that is the cleaned form of
  \<^verbatim>\<open>backup/{databaseTypeName}/{databaseName}_{timestamp}.sql\<close>, and it is that very string
  whenever the database name contains no \<^verbatim>\<open>/\<close>; for mongodb it is the directory
  \<^verbatim>\<open>backup/mongodb/{timestamp}\<close>; and for calendar fields in range the timestamp has the
  shape \<^verbatim>\<open>YYYY-MM-DD_HH-MM-SS\<close>.
\<close>

theorem destination_path:
  assumes "mkdirall_result env (at_mkdir w dbConfig method) (job_backupDir dbConfig) octal_0755 =
           None"
  shows
    "(Type dbConfig = DatabaseTypePostgres \<or> Type dbConfig = DatabaseTypeMySQL \<or>
      Type dbConfig = DatabaseTypeMariaDB \<longrightarrow>
        BackupPath (fst (backupDatabase env dbConfig method (Format_timestamp t)
          namespace tempDir w)) =
          filepath_Clean (''backup/'' @ Type dbConfig @ ''/'' @ Database dbConfig @ ''_'' @
            Format_timestamp t @ ''.sql'') \<and>
        (CHR ''/'' \<notin> set (Database dbConfig) \<longrightarrow>
           BackupPath (fst (backupDatabase env dbConfig method (Format_timestamp t)
             namespace tempDir w)) =
             ''backup/'' @ Type dbConfig @ ''/'' @ Database dbConfig @ ''_'' @
               Format_timestamp t @ ''.sql'')) \<and>
     (Type dbConfig = DatabaseTypeMongoDB \<longrightarrow>
        BackupPath (fst (backupDatabase env dbConfig method (Format_timestamp t)
          namespace tempDir w)) = ''backup/mongodb/'' @ Format_timestamp t) \<and>
     (calendar_time t \<longrightarrow> timestamp_shape (Format_timestamp t))"
proof -
  let ?ts = "Format_timestamp t"
  let ?name = "Database dbConfig @ ''_'' @ ?ts @ ''.sql''"
  let ?path = "BackupPath (fst (backupDatabase env dbConfig method ?ts namespace tempDir w))"
  note path = backupDatabase_BackupPath [OF assms, of ?ts namespace tempDir]
  have sql: "?path = filepath_Clean (''backup/'' @ Type dbConfig @ ''/'' @ ?name) \<and>
      (CHR ''/'' \<notin> set (Database dbConfig) \<longrightarrow>
         ?path = ''backup/'' @ Type dbConfig @ ''/'' @ ?name)"
    if dir: "job_backupDir dbConfig = ''backup/'' @ Type dbConfig"
      and plain: "plain_element (Type dbConfig)"
      and sql_type: "Type dbConfig = DatabaseTypePostgres \<or>
        Type dbConfig = DatabaseTypeMySQL \<or> Type dbConfig = DatabaseTypeMariaDB"
  proof -
    have joined: "?path = filepath_Join [''backup/'' @ Type dbConfig, ?name]"
      using sql_type by (simp only: path backup_switch_path dir if_True)
    then have "?path = filepath_Clean ((''backup/'' @ Type dbConfig) @ ''/'' @ ?name)"
      by simp
    then have cleaned: "?path = filepath_Clean (''backup/'' @ Type dbConfig @ ''/'' @ ?name)"
      by simp
    have "?path = ''backup/'' @ Type dbConfig @ ''/'' @ ?name"
      if "CHR ''/'' \<notin> set (Database dbConfig)"
      using joined Join_under_type_dir [OF plain sql_file_name_plain [OF that, of t]]
      by simp
    with cleaned show ?thesis
      by blast
  qed
  have pg: "?path = filepath_Clean (''backup/'' @ Type dbConfig @ ''/'' @ ?name) \<and>
      (CHR ''/'' \<notin> set (Database dbConfig) \<longrightarrow>
         ?path = ''backup/'' @ Type dbConfig @ ''/'' @ ?name)"
    if h: "Type dbConfig = DatabaseTypePostgres"
  proof (rule sql)
    show "job_backupDir dbConfig = ''backup/'' @ Type dbConfig"
      using known_backupDir(1) [OF h] by (simp add: h DatabaseTypePostgres_def)
    show "plain_element (Type dbConfig)"
      using plain_type_names(2) by (simp add: h DatabaseTypePostgres_def)
    show "Type dbConfig = DatabaseTypePostgres \<or> Type dbConfig = DatabaseTypeMySQL \<or>
        Type dbConfig = DatabaseTypeMariaDB"
      using h by simp
  qed
  have my: "?path = filepath_Clean (''backup/'' @ Type dbConfig @ ''/'' @ ?name) \<and>
      (CHR ''/'' \<notin> set (Database dbConfig) \<longrightarrow>
         ?path = ''backup/'' @ Type dbConfig @ ''/'' @ ?name)"
    if h: "Type dbConfig = DatabaseTypeMySQL"
  proof (rule sql)
    show "job_backupDir dbConfig = ''backup/'' @ Type dbConfig"
      using known_backupDir(2) [OF h] by (simp add: h DatabaseTypeMySQL_def)
    show "plain_element (Type dbConfig)"
      using plain_type_names(3) by (simp add: h DatabaseTypeMySQL_def)
    show "Type dbConfig = DatabaseTypePostgres \<or> Type dbConfig = DatabaseTypeMySQL \<or>
        Type dbConfig = DatabaseTypeMariaDB"
      using h by simp
  qed
  have maria: "?path = filepath_Clean (''backup/'' @ Type dbConfig @ ''/'' @ ?name) \<and>
      (CHR ''/'' \<notin> set (Database dbConfig) \<longrightarrow>
         ?path = ''backup/'' @ Type dbConfig @ ''/'' @ ?name)"
    if h: "Type dbConfig = DatabaseTypeMariaDB"
  proof (rule sql)
    show "job_backupDir dbConfig = ''backup/'' @ Type dbConfig"
      using known_backupDir(3) [OF h] by (simp add: h DatabaseTypeMariaDB_def)
    show "plain_element (Type dbConfig)"
      using plain_type_names(4) by (simp add: h DatabaseTypeMariaDB_def)
    show "Type dbConfig = DatabaseTypePostgres \<or> Type dbConfig = DatabaseTypeMySQL \<or>
        Type dbConfig = DatabaseTypeMariaDB"
      using h by simp
  qed
  have mongo: "?path = ''backup/mongodb/'' @ ?ts" if m: "Type dbConfig = DatabaseTypeMongoDB"
  proof -
    have "?path = filepath_Join [''backup/'' @ ''mongodb'', ?ts]"
      using m known_backupDir(4) [OF m] sql_types_distinct_from_mongodb
      by (simp only: path backup_switch_path) simp
    then show ?thesis
      using Join_under_type_dir [OF plain_type_names(5) Format_timestamp_plain [of t]]
      by simp
  qed
  have shape: "calendar_time t \<Longrightarrow> timestamp_shape ?ts"
    by (rule Format_timestamp_shape)
  from pg my maria mongo shape show ?thesis
    by blast
qed

theorem destination_path_witness:
  "BackupPath (fst (backupDatabase (test_env (\<lambda>a. False) (\<lambda>p. False))
     (test_db DatabaseTypePostgres ''production_db'') BackupMethodKubectlExec
     (Format_timestamp test_time) ''production'' ''/tmp/db-backups'' [])) =
     ''backup/postgres/production_db_2025-11-26_10-22-01.sql'' \<and>
   BackupPath (fst (backupDatabase (test_env (\<lambda>a. False) (\<lambda>p. False))
     (test_db DatabaseTypeMongoDB ''mydb'') BackupMethodDockerExec
     (Format_timestamp test_time) ''default'' ''/tmp/db-backups'' [])) =
     ''backup/mongodb/2025-11-26_10-22-01'' \<and>
   timestamp_shape (Format_timestamp test_time)"
proof -
  let ?env = "test_env (\<lambda>a. False) (\<lambda>p. False)"
  let ?pg = "test_db DatabaseTypePostgres ''production_db''"
  let ?mongo = "test_db DatabaseTypeMongoDB ''mydb''"
  have h1: "mkdirall_result ?env (at_mkdir [] ?pg BackupMethodKubectlExec) (job_backupDir ?pg)
      octal_0755 = None"
    by (simp add: test_env_def)
  have h2: "mkdirall_result ?env (at_mkdir [] ?mongo BackupMethodDockerExec)
      (job_backupDir ?mongo) octal_0755 = None"
    by (simp add: test_env_def)
  have pg: "Type ?pg = DatabaseTypePostgres" "Database ?pg = ''production_db''"
    and mongo: "Type ?mongo = DatabaseTypeMongoDB"
    by (simp_all add: test_db_def)
  have no_slash: "CHR ''/'' \<notin> set ''production_db''"
    by simp
  have cal: "calendar_time test_time"
    by (simp add: calendar_time_def test_time_def)
  have ts: "Format_timestamp test_time = ''2025-11-26_10-22-01''"
    by code_simp
  have a: "BackupPath (fst (backupDatabase ?env ?pg BackupMethodKubectlExec
      (Format_timestamp test_time) ''production'' ''/tmp/db-backups'' [])) =
      ''backup/'' @ DatabaseTypePostgres @ ''/'' @ ''production_db'' @ ''_'' @
        Format_timestamp test_time @ ''.sql''"
    using destination_path [OF h1, of test_time "''production''" "''/tmp/db-backups''"]
      no_slash
    unfolding pg by blast
  have b: "BackupPath (fst (backupDatabase ?env ?mongo BackupMethodDockerExec
      (Format_timestamp test_time) ''default'' ''/tmp/db-backups'' [])) =
      ''backup/mongodb/'' @ Format_timestamp test_time"
    using destination_path [OF h2, of test_time "''default''" "''/tmp/db-backups''"]
    unfolding mongo by blast
  have c: "timestamp_shape (Format_timestamp test_time)"
    using destination_path [OF h1, of test_time "''production''" "''/tmp/db-backups''"] cal
    by blast
  from a b c show ?thesis
    by (simp add: ts DatabaseTypePostgres_def)
qed

text \<open>
  Claim C7 gives the path of a file-producing job as the plain concatenation for every
  job. For the database name \<^verbatim>\<open>../x\<close> it is not: \<^verbatim>\<open>filepath.Join\<close> cleans the
  path, and the dump goes to \<^verbatim>\<open>backup/x_{timestamp}.sql\<close>, outside the directory of the
  database type.
\<close>

theorem destination_path_is_cleaned:
  "BackupPath (fst (backupDatabase (test_env (\<lambda>a. False) (\<lambda>p. False))
     (test_db DatabaseTypePostgres ''../x'') BackupMethodDockerRun
     (Format_timestamp test_time) ''default'' ''/tmp/db-backups'' [])) =
     ''backup/x_2025-11-26_10-22-01.sql'' \<and>
   BackupPath (fst (backupDatabase (test_env (\<lambda>a. False) (\<lambda>p. False))
     (test_db DatabaseTypePostgres ''../x'') BackupMethodDockerRun
     (Format_timestamp test_time) ''default'' ''/tmp/db-backups'' [])) \<noteq>
     ''backup/postgres/../x_2025-11-26_10-22-01.sql''"
proof -
  let ?env = "test_env (\<lambda>a. False) (\<lambda>p. False)"
  let ?db = "test_db DatabaseTypePostgres ''../x''"
  have h: "mkdirall_result ?env (at_mkdir [] ?db BackupMethodDockerRun) (job_backupDir ?db)
      octal_0755 = None"
    by (simp add: test_env_def)
  have "fst (fst (backup_switch ?env ?db BackupMethodDockerRun (Format_timestamp test_time)
      ''default'' ''/tmp/db-backups'' (job_backupDir ?db)
      (directory_ready [] ?db BackupMethodDockerRun))) = ''backup/x_2025-11-26_10-22-01.sql''"
    by code_simp
  then have path: "BackupPath (fst (backupDatabase ?env ?db BackupMethodDockerRun
      (Format_timestamp test_time) ''default'' ''/tmp/db-backups'' [])) =
      ''backup/x_2025-11-26_10-22-01.sql''"
    by (simp only: backupDatabase_BackupPath [OF h])
  have "''backup/x_2025-11-26_10-22-01.sql'' \<noteq> ''backup/postgres/../x_2025-11-26_10-22-01.sql''"
    by simp
  with path show ?thesis
    by simp
qed

end
